theory Spec2Isabelle
  imports Complex_Main
begin

section \<open>Task API of the service server: exceptions and data\<close>

text \<open>
  The theory embeds \<^verbatim>\<open>assemblyline_service_server/api/v1/task.py\<close>: the class
  \<^verbatim>\<open>Heuristic\<close>, the handlers \<^verbatim>\<open>get_task\<close> and \<^verbatim>\<open>task_finished\<close>, and the helpers
  \<^verbatim>\<open>handle_task_result\<close> and \<^verbatim>\<open>handle_task_error\<close>.

  A Python exception is a value of type \<open>exn\<close>; a function that may raise returns
  \<open>exn + 'a\<close> with \<open>Inl\<close> for the raised exception. The argument of
  \<open>InvalidHeuristicException\<close> is the heuristic id the message is built from, the
  argument of the others is the message (for \<open>KeyError\<close> the missing key).
\<close>

datatype exn =
  ValueError string
| KeyError string
| AttributeError string
| OverflowError string
| InvalidHeuristicException string

subsection \<open>Heuristic catalog and attack map\<close>

text \<open>
  The fields of a catalog entry (\<^verbatim>\<open>assemblyline.odm.models.heuristic.Heuristic\<close>) that
  the scorer reads. \<open>def_max_score\<close> is an optional integer, \<open>def_signature_score_map\<close>
  a dictionary from signature names to scores.
\<close>

record heuristic_definition =
  def_name :: string
  def_classification :: string
  def_score :: int
  def_max_score :: "int option"
  def_signature_score_map :: "string \<rightharpoonup> int"

record attack_entry =
  attack_name :: string
  attack_categories :: "string list"

text \<open>
  The value under the key \<^verbatim>\<open>signatures\<close> of a heuristic reference, as JSON gives it:
  an object (its items in document order, keys distinct), an array, or null. Only an
  object has the method \<^verbatim>\<open>items\<close>.
\<close>

datatype signatures_value =
  SigDict "(string \<times> int) list"
| SigList "string list"
| SigNone

text \<open>The instance attributes set by \<^verbatim>\<open>Heuristic.__init__\<close>.\<close>

record heuristic_obj =
  heur_id :: string
  attack_ids :: "string list"
  score :: int
  name :: string
  classification :: string
  signatures :: signatures_value

subsection \<open>The class Heuristic\<close>

text \<open>
  \<^verbatim>\<open>for a_id in attack_ids: if a_id in set(attack_map.keys()): self.attack_ids.append(a_id)\<close>;
  the accumulator is \<^verbatim>\<open>self.attack_ids\<close>. The warning logged for a dropped id is not
  part of the model.
\<close>

fun valid_attack_ids :: "(string \<rightharpoonup> attack_entry) \<Rightarrow> string list \<Rightarrow> string list \<Rightarrow> string list" where
  "valid_attack_ids am [] acc = acc"
| "valid_attack_ids am (a_id # rest) acc =
     (if am a_id \<noteq> None then valid_attack_ids am rest (acc @ [a_id])
      else valid_attack_ids am rest acc)"

text \<open>
  \<^verbatim>\<open>for sig_name, freq in signatures.items()\<close>: the running value of \<^verbatim>\<open>self.score\<close> is
  the last argument.
\<close>

fun signature_score :: "heuristic_definition \<Rightarrow> (string \<times> int) list \<Rightarrow> int \<Rightarrow> int" where
  "signature_score d [] sc = sc"
| "signature_score d ((sig_name, freq) # rest) sc =
     (case def_signature_score_map d sig_name of
        Some s \<Rightarrow> signature_score d rest (sc + s * freq)
      | None \<Rightarrow> signature_score d rest (sc + def_score d * freq))"

text \<open>\<^verbatim>\<open>signatures or {}\<close>: an empty object, an empty array and null are falsy.\<close>

definition signatures_or_empty :: "signatures_value \<Rightarrow> signatures_value" where
  "signatures_or_empty sv =
     (case sv of
        SigDict [] \<Rightarrow> SigDict []
      | SigList [] \<Rightarrow> SigDict []
      | SigNone \<Rightarrow> SigDict []
      | _ \<Rightarrow> sv)"

text \<open>
  \<^verbatim>\<open>self.score = max(definition.score, self.score)\<close>, then
  \<^verbatim>\<open>if definition.max_score: self.score = min(self.score, definition.max_score)\<close>.
  The test is Python truthiness: it fails for \<^verbatim>\<open>None\<close> and for \<^verbatim>\<open>0\<close>.
\<close>

definition scoring_boundaries :: "heuristic_definition \<Rightarrow> int \<Rightarrow> int" where
  "scoring_boundaries d sc =
     (let sc1 = max (def_score d) sc
      in case def_max_score d of
           None \<Rightarrow> sc1
         | Some m \<Rightarrow> if m \<noteq> 0 then min sc1 m else sc1)"

text \<open>
  \<^verbatim>\<open>Heuristic.__init__(self, heur_id, attack_ids, signatures, frequency)\<close>. The loop
  over the signatures calls \<^verbatim>\<open>items\<close> on the parameter \<^verbatim>\<open>signatures\<close>, not on
  \<^verbatim>\<open>self.signatures\<close>: on an array or on null the call raises \<^verbatim>\<open>AttributeError\<close>.
  A parameter \<^verbatim>\<open>attack_ids\<close> of \<^verbatim>\<open>None\<close> is \<open>None\<close> here (\<^verbatim>\<open>attack_ids or []\<close>).
\<close>

definition Heuristic_init ::
  "(string \<rightharpoonup> heuristic_definition) \<Rightarrow> (string \<rightharpoonup> attack_entry) \<Rightarrow>
   string \<Rightarrow> string list option \<Rightarrow> signatures_value \<Rightarrow> int \<Rightarrow> exn + heuristic_obj" where
  "Heuristic_init hs am hid aids sigs frequency =
     (case hs hid of
        None \<Rightarrow> Inl (InvalidHeuristicException hid)
      | Some d \<Rightarrow>
          (let aids' = valid_attack_ids am (case aids of None \<Rightarrow> [] | Some l \<Rightarrow> l) []
           in case sigs of
                SigDict items \<Rightarrow>
                  Inr \<lparr>heur_id = hid,
                       attack_ids = aids',
                       score = scoring_boundaries d
                                 (signature_score d items 0 + def_score d * frequency),
                       name = def_name d,
                       classification = def_classification d,
                       signatures = signatures_or_empty sigs\<rparr>
              | SigList l \<Rightarrow> Inl (AttributeError ''items'')
              | SigNone \<Rightarrow> Inl (AttributeError ''items'')))"

subsection \<open>Result sections\<close>

text \<open>
  The heuristic reference a worker puts in a section: the keys that
  \<^verbatim>\<open>handle_task_result\<close> reads. \<open>None\<close> is a missing key; \<open>raw_heur_id\<close> holds the
  text \<^verbatim>\<open>str(section['heuristic']['heur_id'])\<close>, and \<open>raw_attack_ids = Some None\<close> is
  the key \<^verbatim>\<open>attack_ids\<close> with the value null.
\<close>

record raw_heuristic =
  raw_heur_id :: "string option"
  raw_attack_ids :: "string list option option"
  raw_signatures :: "signatures_value option"
  raw_frequency :: "int option"

text \<open>The dictionary that replaces the reference once the heuristic is scored.\<close>

record attack_item =
  attack_id :: string
  pattern :: string
  categories :: "string list"

record signature_item =
  sig_item_name :: string
  sig_item_frequency :: int

record scored_heuristic =
  sh_heur_id :: string
  sh_score :: int
  sh_name :: string
  sh_attack :: "attack_item list"
  sh_signature :: "signature_item list"

text \<open>
  The value of \<^verbatim>\<open>section.get('heuristic')\<close> in a report: a missing key or null, the
  empty dictionary (both falsy), or a non-empty dictionary.
\<close>

datatype heuristic_ref =
  Ref_none
| Ref_empty
| Ref_dict raw_heuristic

text \<open>
  The value of \<^verbatim>\<open>section['heuristic']\<close> after the first loop of
  \<^verbatim>\<open>handle_task_result\<close>: a falsy value is left as it was, \<^verbatim>\<open>None\<close> is also what
  the handler of \<^verbatim>\<open>InvalidHeuristicException\<close> writes, and \<open>Scored\<close> is the dictionary
  built from the \<^verbatim>\<open>Heuristic\<close> object.
\<close>

datatype section_heuristic =
  No_heuristic
| Empty_heuristic
| Scored scored_heuristic

type_synonym tags = "(string \<times> string list) list"

text \<open>A section of a report; \<open>sec_tags = None\<close> is a section without the key \<^verbatim>\<open>tags\<close>.\<close>

record raw_section =
  sec_title_text :: string
  sec_heuristic :: heuristic_ref
  sec_tags :: "tags option"

text \<open>A section once its heuristic is scored.\<close>

record result_section =
  title_text :: string
  heuristic :: section_heuristic
  section_tags :: "tags option"

subsection \<open>Tasks, results, errors\<close>

record task =
  sid :: string
  fileinfo_sha256 :: string
  ignore_cache :: bool
  ttl :: int

record file_ref =
  file_name :: string
  sha256 :: string

record response_body =
  extracted :: "file_ref list"
  supplementary :: "file_ref list"
  service_tool_version :: string

text \<open>The dictionary under the key \<^verbatim>\<open>result\<close> of a report; \<open>declared_score\<close> is its key \<^verbatim>\<open>score\<close>.\<close>

record result_body =
  sections :: "raw_section list"
  declared_score :: "int option"

record result_payload =
  payload_result :: "result_body option"
  payload_response :: response_body
  payload_temp_submission_data :: "string option"
  payload_created :: "string option"
  payload_archive_ts :: "string option"
  payload_expiry_ts :: "string option"

text \<open>
  The \<^verbatim>\<open>Result\<close> model (\<^verbatim>\<open>assemblyline.odm.models.result\<close>) with the fields the
  handlers read or write.
\<close>

record result_model =
  result_sections :: "result_section list"
  result_score :: int
  response :: response_body
  created :: string
  archive_ts :: string
  expiry_ts :: "string option"

record error_payload =
  error_status :: string
  error_service_tool_version :: string
  error_created :: "string option"
  error_archive_ts :: "string option"
  error_expiry_ts :: "string option"

text \<open>The JSON body of \<^verbatim>\<open>POST /task/\<close>; \<open>None\<close> is a missing key.\<close>

record report_data =
  data_exec_time :: "int option"
  data_task :: "task option"
  data_result :: "result_payload option"
  data_error :: "error_payload option"

record client_info =
  client_id :: string
  service_name :: string
  service_version :: string
  client_service_tool_version :: string

record service =
  timeout :: int
  disable_cache :: bool

subsection \<open>Collaborators, effects and responses\<close>

datatype service_status = Idle | Running

text \<open>
  The calls a handler makes on its collaborators, in order: the liveness table, the
  dispatch client, the two result tables of the datastore, and the metrics exporter.
  The last argument of \<open>Status_set\<close> is the deadline.
\<close>

datatype event =
  Status_set string string service_status rat
| Request_work string string string int
| Result_lookup string
| Emptyresult_lookup string
| Service_finished string string result_model "string option"
| Service_failed string string error_payload
| Export_metrics string string "(string \<times> int) list"

text \<open>
  What the handlers take from outside \<^verbatim>\<open>task.py\<close>: the heuristic catalog, the attack
  map, the dispatch client, the datastore tables, the file store, the tag whitelister,
  the model constructors of the ODM, the clock and the configuration, and two
  operations of Python itself. A model constructor either raises (\<open>Some e\<close>) or builds
  the model that carries the fields it was given (\<open>None\<close>). \<open>whitelist_tags\<close> is
  \<^verbatim>\<open>unflatten(tag_whitelister.get_validated_tag_map(flatten(tags)))\<close>, \<open>construct_safe_Tagging\<close>
  returns the kept and the dropped tags, \<open>now_as_iso\<close> takes the offset in seconds.
  \<open>time_time n\<close> is the value of the \<open>n\<close>-th call of \<^verbatim>\<open>time.time()\<close> in a request, a
  finite double; \<open>float_add x n\<close> is the double that \<^verbatim>\<open>x + n\<close> yields for a double \<open>x\<close>
  and an integer \<open>n\<close>, with the rounding of the machine; \<open>str_upper\<close> is \<^verbatim>\<open>str.upper\<close>.
\<close>

record env =
  heuristics :: "string \<rightharpoonup> heuristic_definition"
  attack_map :: "string \<rightharpoonup> attack_entry"
  service_data :: "string \<rightharpoonup> service"
  request_work :: "string \<Rightarrow> string \<Rightarrow> string \<Rightarrow> int \<Rightarrow> exn + task option"
  help_build_key :: "string \<Rightarrow> string \<Rightarrow> string \<Rightarrow> string \<Rightarrow> bool \<Rightarrow> task \<Rightarrow> string"
  result_get_if_exists :: "string \<Rightarrow> exn + result_model option"
  emptyresult_get_if_exists :: "string \<Rightarrow> exn + unit option"
  create_empty_result_from_key :: "string \<Rightarrow> result_model"
  file_get_if_exists :: "string \<rightharpoonup> string"
  filestore_exists :: "string \<Rightarrow> bool"
  whitelist_tags :: "tags \<Rightarrow> tags"
  construct_safe_Tagging :: "tags \<Rightarrow> tags \<times> tags"
  ServiceTask_model :: "task \<Rightarrow> exn option"
  Result_model :: "result_model \<Rightarrow> exn option"
  Error_model :: "error_payload \<Rightarrow> exn option"
  result_build_key :: "result_model \<Rightarrow> string \<Rightarrow> task \<Rightarrow> string"
  error_build_key :: "error_payload \<Rightarrow> string \<Rightarrow> task \<Rightarrow> string"
  now_as_iso :: "int \<Rightarrow> string"
  time_time :: "nat \<Rightarrow> rat"
  float_add :: "rat \<Rightarrow> int \<Rightarrow> rat"
  str_upper :: "string \<Rightarrow> string"
  days_until_archive :: int

text \<open>
  The first argument of \<^verbatim>\<open>make_api_response\<close>: \<^verbatim>\<open>dict(task=False)\<close>,
  \<^verbatim>\<open>dict(task=task.as_primitives())\<close>, \<^verbatim>\<open>dict(success=True)\<close>,
  \<^verbatim>\<open>dict(success=False, missing_files=...)\<close> and the empty string.
\<close>

datatype api_body =
  Body_task_false
| Body_task task
| Body_success
| Body_missing_files "string list"
| Body_empty

text \<open>
  \<^verbatim>\<open>make_api_response(data, err="", status_code=200)\<close> is defined in
  \<^verbatim>\<open>assemblyline_service_server/api/base.py\<close>; a response is the triple of its
  arguments.
\<close>

datatype api_response = Api_response api_body string nat

definition make_api_response :: "api_body \<Rightarrow> api_response" where
  "make_api_response body = Api_response body [] 200"

section \<open>Result finalisation\<close>

text \<open>
  \<^verbatim>\<open>attack_item = dict(attack_id=..., pattern=attack_map[attack_id]['name'],
  categories=attack_map[attack_id]['categories'])\<close> for each id kept by the scorer; an id
  outside the attack map would raise \<^verbatim>\<open>KeyError\<close>.
\<close>

fun attack_items :: "(string \<rightharpoonup> attack_entry) \<Rightarrow> string list \<Rightarrow> exn + attack_item list" where
  "attack_items am [] = Inr []"
| "attack_items am (a # rest) =
     (case am a of
        None \<Rightarrow> Inl (KeyError a)
      | Some entry \<Rightarrow>
          (case attack_items am rest of
             Inl e \<Rightarrow> Inl e
           | Inr items \<Rightarrow>
               Inr (\<lparr>attack_id = a, pattern = attack_name entry,
                     categories = attack_categories entry\<rparr> # items)))"

text \<open>\<^verbatim>\<open>for sig_name, freq in heuristic.signatures.items()\<close>.\<close>

definition signature_items :: "signatures_value \<Rightarrow> exn + signature_item list" where
  "signature_items sv =
     (case sv of
        SigDict items \<Rightarrow>
          Inr (map (\<lambda>(sig_name, freq). \<lparr>sig_item_name = sig_name, sig_item_frequency = freq\<rparr>) items)
      | _ \<Rightarrow> Inl (AttributeError ''items''))"

text \<open>
  The body of the first loop of \<^verbatim>\<open>handle_task_result\<close> for one section, with the
  running \<^verbatim>\<open>total_score\<close>. The defaults of the three \<^verbatim>\<open>pop\<close> calls are \<^verbatim>\<open>[]\<close>,
  \<^verbatim>\<open>[]\<close> and \<^verbatim>\<open>0\<close>: a reference without the key \<^verbatim>\<open>signatures\<close> passes an empty
  array to the scorer. Only \<^verbatim>\<open>InvalidHeuristicException\<close> is caught.
\<close>

definition score_section ::
  "env \<Rightarrow> string \<Rightarrow> raw_section \<Rightarrow> int \<Rightarrow> exn + (result_section \<times> int)" where
  "score_section env sname sec total_score =
     (let unscored = (\<lambda>h. \<lparr>title_text = sec_title_text sec, heuristic = h,
                            section_tags = sec_tags sec\<rparr>)
      in case sec_heuristic sec of
           Ref_none \<Rightarrow> Inr (unscored No_heuristic, total_score)
         | Ref_empty \<Rightarrow> Inr (unscored Empty_heuristic, total_score)
         | Ref_dict rh \<Rightarrow>
             (case raw_heur_id rh of
                None \<Rightarrow> Inl (KeyError ''heur_id'')
              | Some raw_id \<Rightarrow>
                  (let hid = str_upper env sname @ ''.'' @ raw_id;
                       aids = (case raw_attack_ids rh of None \<Rightarrow> Some [] | Some l \<Rightarrow> l);
                       sigs = (case raw_signatures rh of None \<Rightarrow> SigList [] | Some v \<Rightarrow> v);
                       frequency = (case raw_frequency rh of None \<Rightarrow> 0 | Some f \<Rightarrow> f)
                   in case Heuristic_init (heuristics env) (attack_map env) hid aids sigs
                             frequency of
                        Inl (InvalidHeuristicException m) \<Rightarrow> Inr (unscored No_heuristic, total_score)
                      | Inl e \<Rightarrow> Inl e
                      | Inr h \<Rightarrow>
                          (case attack_items (attack_map env) (attack_ids h) of
                             Inl e \<Rightarrow> Inl e
                           | Inr attack \<Rightarrow>
                               (case signature_items (signatures h) of
                                  Inl e \<Rightarrow> Inl e
                                | Inr signature \<Rightarrow>
                                    Inr (unscored
                                           (Scored \<lparr>sh_heur_id = hid, sh_score = score h,
                                                    sh_name = name h, sh_attack = attack,
                                                    sh_signature = signature\<rparr>),
                                         total_score + score h))))))"

text \<open>\<^verbatim>\<open>for section in result['result']['sections']\<close>, first loop.\<close>

fun score_sections ::
  "env \<Rightarrow> string \<Rightarrow> raw_section list \<Rightarrow> int \<Rightarrow> exn + (result_section list \<times> int)" where
  "score_sections env sname [] total_score = Inr ([], total_score)"
| "score_sections env sname (sec # rest) total_score =
     (case score_section env sname sec total_score of
        Inl e \<Rightarrow> Inl e
      | Inr (sec', total_score') \<Rightarrow>
          (case score_sections env sname rest total_score' of
             Inl e \<Rightarrow> Inl e
           | Inr (rest', total_score'') \<Rightarrow> Inr (sec' # rest', total_score'')))"

text \<open>
  The second loop: \<^verbatim>\<open>section['tags']\<close> raises \<^verbatim>\<open>KeyError\<close> on a section without tags;
  the dropped tags are only logged.
\<close>

fun process_tags :: "env \<Rightarrow> result_section list \<Rightarrow> exn + result_section list" where
  "process_tags env [] = Inr []"
| "process_tags env (sec # rest) =
     (case section_tags sec of
        None \<Rightarrow> Inl (KeyError ''tags'')
      | Some t \<Rightarrow>
          (let (kept, dropped) = construct_safe_Tagging env (whitelist_tags env t)
           in case process_tags env rest of
                Inl e \<Rightarrow> Inl e
              | Inr rest' \<Rightarrow> Inr (sec\<lparr>section_tags := Some kept\<rparr> # rest')))"

text \<open>
  \<^verbatim>\<open>handle_task_result\<close> up to the second loop: scoring, the aggregate score, the
  timestamps, the temporary submission data, the tags. The value is the dictionary
  handed to \<^verbatim>\<open>Result(...)\<close> and the popped temporary submission data.
  \<^verbatim>\<open>if task.ttl\<close> is the test \<open>ttl task \<noteq> 0\<close>.
\<close>

definition prepare_result ::
  "env \<Rightarrow> client_info \<Rightarrow> task \<Rightarrow> result_payload \<Rightarrow> exn + (result_model \<times> string option)" where
  "prepare_result env ci tsk r =
     (case payload_result r of
        None \<Rightarrow> Inl (KeyError ''result'')
      | Some body \<Rightarrow>
          (case score_sections env (service_name ci) (sections body) 0 of
             Inl e \<Rightarrow> Inl e
           | Inr (secs, total_score) \<Rightarrow>
               (case process_tags env secs of
                  Inl e \<Rightarrow> Inl e
                | Inr secs' \<Rightarrow>
                    Inr (\<lparr>result_sections = secs',
                          result_score = total_score,
                          response = payload_response r,
                          created = now_as_iso env 0,
                          archive_ts = now_as_iso env (days_until_archive env * 24 * 60 * 60),
                          expiry_ts = (if ttl tsk \<noteq> 0
                                       then Some (now_as_iso env (ttl tsk * 24 * 60 * 60))
                                       else payload_expiry_ts r)\<rparr>,
                         payload_temp_submission_data r))))"

text \<open>\<^verbatim>\<open>STORAGE.file.get_if_exists(file.sha256) is None or not f_transport.exists(file.sha256)\<close>.\<close>

definition file_missing :: "env \<Rightarrow> string \<Rightarrow> bool" where
  "file_missing env h = (file_get_if_exists env h = None \<or> \<not> filestore_exists env h)"

definition missing_files_of :: "env \<Rightarrow> response_body \<Rightarrow> string list" where
  "missing_files_of env resp =
     filter (file_missing env) (map sha256 (extracted resp @ supplementary resp))"

text \<open>
  \<^verbatim>\<open>handle_task_result(exec_time, task, result, client_info)\<close>: the value is the list of
  missing files (\<open>Some\<close>, never empty) or \<^verbatim>\<open>None\<close>, with the calls made on the way.
\<close>

definition handle_task_result ::
  "env \<Rightarrow> int option \<Rightarrow> task \<Rightarrow> result_payload \<Rightarrow> client_info \<Rightarrow>
   (exn + string list option) \<times> event list" where
  "handle_task_result env exec_time tsk r ci =
     (case prepare_result env ci tsk r of
        Inl e \<Rightarrow> (Inl e, [])
      | Inr (result, temp_submission_data) \<Rightarrow>
          (case Result_model env result of
             Some e \<Rightarrow> (Inl e, [])
           | None \<Rightarrow>
               (let missing_files = missing_files_of env (response result)
                in if missing_files \<noteq> [] then (Inr (Some missing_files), [])
                   else
                     (let result_key = result_build_key env result
                                         (service_tool_version (response result)) tsk
                      in (Inr None,
                          [Service_finished (sid tsk) result_key result temp_submission_data,
                           (if result_score result > 0
                            then Export_metrics (service_name ci) (client_id ci) [(''scored'', 1)]
                            else Export_metrics (service_name ci) (client_id ci)
                                   [(''not_scored'', 1)])])))))"

text \<open>\<^verbatim>\<open>handle_task_error(exec_time, task, error, client_info)\<close>.\<close>

definition handle_task_error ::
  "env \<Rightarrow> int option \<Rightarrow> task \<Rightarrow> error_payload \<Rightarrow> client_info \<Rightarrow> (exn + unit) \<times> event list" where
  "handle_task_error env exec_time tsk err ci =
     (let err1 = err\<lparr>error_created := Some (now_as_iso env 0),
                     error_archive_ts := Some (now_as_iso env (days_until_archive env * 24 * 60 * 60))\<rparr>;
          err2 = (if ttl tsk \<noteq> 0
                  then err1\<lparr>error_expiry_ts := Some (now_as_iso env (ttl tsk * 24 * 60 * 60))\<rparr>
                  else err1)
      in case Error_model env err2 of
           Some e \<Rightarrow> (Inl e, [])
         | None \<Rightarrow>
             (let error_key = error_build_key env err2 (error_service_tool_version err2) tsk
              in (Inr (),
                  [Service_failed (sid tsk) error_key err2,
                   (if error_status err2 = ''FAIL_RECOVERABLE''
                    then Export_metrics (service_name ci) (client_id ci) [(''fail_recoverable'', 1)]
                    else Export_metrics (service_name ci) (client_id ci) [(''fail_nonrecoverable'', 1)])])))"

text \<open>
  \<^verbatim>\<open>except ValueError as e: return make_api_response("", e, 400)\<close>; any other exception
  leaves the handler.
\<close>

definition except_ValueError :: "exn \<Rightarrow> exn + api_response" where
  "except_ValueError e =
     (case e of
        ValueError msg \<Rightarrow> Inr (Api_response Body_empty msg 400)
      | _ \<Rightarrow> Inl e)"

text \<open>\<^verbatim>\<open>task_finished(client_info)\<close>, the handler of \<^verbatim>\<open>POST /task/\<close>.\<close>

definition task_finished :: "env \<Rightarrow> client_info \<Rightarrow> report_data \<Rightarrow> (exn + api_response) \<times> event list" where
  "task_finished env ci data =
     (let exec_time = data_exec_time data
      in case data_task data of
           None \<Rightarrow> (Inl (KeyError ''task''), [])
         | Some tsk \<Rightarrow>
             (case ServiceTask_model env tsk of
                Some e \<Rightarrow> (except_ValueError e, [])
              | None \<Rightarrow>
                  (case data_result data of
                     Some result \<Rightarrow>
                       (case handle_task_result env exec_time tsk result ci of
                          (Inl e, evs) \<Rightarrow> (except_ValueError e, evs)
                        | (Inr (Some missing_files), evs) \<Rightarrow>
                            (Inr (make_api_response (Body_missing_files missing_files)), evs)
                        | (Inr None, evs) \<Rightarrow> (Inr (make_api_response Body_success), evs))
                   | None \<Rightarrow>
                       (case data_error data of
                          Some err \<Rightarrow>
                            (case handle_task_error env exec_time tsk err ci of
                               (Inl e, evs) \<Rightarrow> (except_ValueError e, evs)
                             | (Inr u, evs) \<Rightarrow> (Inr (make_api_response Body_success), evs))
                        | None \<Rightarrow>
                            (Inr (Api_response Body_empty ''No result or error provided by service.'' 400),
                             [])))))"

section \<open>Work pickup\<close>

text \<open>
  The header \<^verbatim>\<open>timeout\<close> of \<^verbatim>\<open>GET /task/\<close>: absent, a text that \<^verbatim>\<open>float\<close> reads as
  the finite number given, a text it reads as an infinity, or a text on which
  \<^verbatim>\<open>int(float(...))\<close> raises \<^verbatim>\<open>ValueError\<close> (not a number, or \<^verbatim>\<open>nan\<close>).
\<close>

datatype timeout_header =
  Header_absent
| Header_number rat
| Header_infinite
| Header_invalid

text \<open>\<^verbatim>\<open>int\<close> of a finite float truncates towards zero.\<close>

definition int_of_float :: "rat \<Rightarrow> int" where
  "int_of_float q = (if 0 \<le> q then \<lfloor>q\<rfloor> else \<lceil>q\<rceil>)"

text \<open>\<^verbatim>\<open>int(float(request.headers.get('timeout', 30)))\<close>.\<close>

definition read_timeout :: "timeout_header \<Rightarrow> exn + int" where
  "read_timeout h =
     (case h of
        Header_absent \<Rightarrow> Inr 30
      | Header_number q \<Rightarrow> Inr (int_of_float q)
      | Header_infinite \<Rightarrow> Inl (OverflowError ''cannot convert float infinity to integer'')
      | Header_invalid \<Rightarrow> Inl (ValueError ''could not convert string to float''))"

text \<open>
  The \<^verbatim>\<open>try\<close> block of \<^verbatim>\<open>get_task\<close>, entered once a task has been obtained. The value
  is the outcome, the value of \<^verbatim>\<open>cache_miss\<close> when the block is left, and the calls
  made in the block. \<^verbatim>\<open>dispatch_client.service_data[service_name]\<close> raises \<^verbatim>\<open>KeyError\<close>
  for an unknown service; the two lookups in the datastore may raise.
\<close>

definition get_task_try ::
  "env \<Rightarrow> client_info \<Rightarrow> task \<Rightarrow> (exn + api_response) \<times> bool \<times> event list" where
  "get_task_try env ci tsk =
     (let result_key = help_build_key env (fileinfo_sha256 tsk) (service_name ci) (service_version ci)
                         (client_service_tool_version ci) False tsk
      in case service_data env (service_name ci) of
           None \<Rightarrow> (Inl (KeyError (service_name ci)), False, [])
         | Some sd \<Rightarrow>
             (let running = Status_set (client_id ci) (service_name ci) Running
                              (float_add env (time_time env 1) (timeout sd))
              in if \<not> ignore_cache tsk \<and> \<not> disable_cache sd then
                   (case result_get_if_exists env result_key of
                      Inl e \<Rightarrow> (Inl e, False, [Result_lookup result_key])
                    | Inr (Some result) \<Rightarrow>
                        (Inr (make_api_response Body_task_false), False,
                         [Result_lookup result_key,
                          Service_finished (sid tsk) result_key result None])
                    | Inr None \<Rightarrow>
                        (case emptyresult_get_if_exists env (result_key @ ''.e'') of
                           Inl e \<Rightarrow>
                             (Inl e, False,
                              [Result_lookup result_key, Emptyresult_lookup (result_key @ ''.e'')])
                         | Inr (Some marker) \<Rightarrow>
                             (Inr (make_api_response Body_task_false), False,
                              [Result_lookup result_key, Emptyresult_lookup (result_key @ ''.e''),
                               Service_finished (sid tsk) (result_key @ ''.e'')
                                 (create_empty_result_from_key env result_key) None])
                         | Inr None \<Rightarrow>
                             (Inr (make_api_response (Body_task tsk)), True,
                              [Result_lookup result_key, Emptyresult_lookup (result_key @ ''.e''),
                               running])))
                 else (Inr (make_api_response (Body_task tsk)), False, [running])))"

text \<open>
  \<^verbatim>\<open>get_task(client_info)\<close>, the handler of \<^verbatim>\<open>GET /task/\<close>. The \<^verbatim>\<open>finally\<close> clause
  exports \<^verbatim>\<open>dict(execute=1, cache_miss=int(cache_miss))\<close> when the \<^verbatim>\<open>try\<close> block is
  left; the return for an empty queue comes before the block.
\<close>

definition get_task :: "env \<Rightarrow> client_info \<Rightarrow> timeout_header \<Rightarrow> (exn + api_response) \<times> event list" where
  "get_task env ci hdr =
     (case read_timeout hdr of
        Inl e \<Rightarrow> (Inl e, [])
      | Inr tmo \<Rightarrow>
          (let evs0 = [Status_set (client_id ci) (service_name ci) Idle
                         (float_add env (float_add env (time_time env 0) tmo) 5),
                       Request_work (client_id ci) (service_name ci) (service_version ci) tmo]
           in case request_work env (client_id ci) (service_name ci) (service_version ci) tmo of
                Inl e \<Rightarrow> (Inl e, evs0)
              | Inr None \<Rightarrow> (Inr (make_api_response Body_task_false), evs0)
              | Inr (Some tsk) \<Rightarrow>
                  (case get_task_try env ci tsk of
                     (outcome, cache_miss, evs) \<Rightarrow>
                       (outcome,
                        evs0 @ evs @
                        [Export_metrics (service_name ci) (client_id ci)
                           [(''execute'', 1), (''cache_miss'', if cache_miss then 1 else 0)]]))))"

text \<open>Predicates on the calls a handler made.\<close>

definition is_service_finished :: "event \<Rightarrow> bool" where
  "is_service_finished ev = (case ev of Service_finished s k r t \<Rightarrow> True | _ \<Rightarrow> False)"

definition is_cache_lookup :: "event \<Rightarrow> bool" where
  "is_cache_lookup ev =
     (case ev of Result_lookup k \<Rightarrow> True | Emptyresult_lookup k \<Rightarrow> True | _ \<Rightarrow> False)"

definition is_execute_metric :: "event \<Rightarrow> bool" where
  "is_execute_metric ev =
     (case ev of Export_metrics s h counters \<Rightarrow> map_of counters ''execute'' \<noteq> None | _ \<Rightarrow> False)"

definition request_work_timeouts :: "event list \<Rightarrow> int list" where
  "request_work_timeouts evs =
     concat (map (\<lambda>ev. case ev of Request_work c s v tmo \<Rightarrow> [tmo] | _ \<Rightarrow> []) evs)"

section \<open>Notions used in the statements\<close>

text \<open>The score of the object the scorer builds, or the exception it raises.\<close>

definition Heuristic_score ::
  "(string \<rightharpoonup> heuristic_definition) \<Rightarrow> (string \<rightharpoonup> attack_entry) \<Rightarrow>
   string \<Rightarrow> string list option \<Rightarrow> signatures_value \<Rightarrow> int \<Rightarrow> exn + int" where
  "Heuristic_score hs am hid aids sigs frequency =
     (case Heuristic_init hs am hid aids sigs frequency of
        Inl e \<Rightarrow> Inl e
      | Inr h \<Rightarrow> Inr (score h))"

text \<open>
  The score as the specification words it, for base score \<open>B\<close>, overrides \<open>ov\<close> and
  optional max score \<open>M\<close>: the sum over the signatures of override or base score times
  frequency, plus base score times occurrence frequency; then the max with \<open>B\<close>; then,
  if a max score is configured, the min with it.
\<close>

definition spec_score ::
  "int \<Rightarrow> (string \<rightharpoonup> int) \<Rightarrow> int option \<Rightarrow> (string \<times> int) list \<Rightarrow> int \<Rightarrow> int" where
  "spec_score B ov M sigs frequency =
     (let total = sum_list (map (\<lambda>(s, f). (case ov s of Some v \<Rightarrow> v | None \<Rightarrow> B) * f) sigs)
                  + B * frequency;
          floored = max total B
      in case M of None \<Rightarrow> floored | Some m \<Rightarrow> min floored m)"

text \<open>The score a finalised section contributes: that of its scored heuristic, if any.\<close>

definition section_score :: "result_section \<Rightarrow> int" where
  "section_score sec = (case heuristic sec of Scored sh \<Rightarrow> sh_score sh | _ \<Rightarrow> 0)"

text \<open>The namespaced id \<^verbatim>\<open>f"{service_name.upper()}.{heur_id}"\<close> of a reference.\<close>

definition namespaced_id :: "env \<Rightarrow> string \<Rightarrow> raw_heuristic \<Rightarrow> string" where
  "namespaced_id env sname rh =
     str_upper env sname @ ''.'' @ (case raw_heur_id rh of Some i \<Rightarrow> i | None \<Rightarrow> [])"

text \<open>
  The arguments \<^verbatim>\<open>handle_task_result\<close> passes to the scorer for a reference: the
  defaults of the three \<^verbatim>\<open>pop\<close> calls stand in for missing keys.
\<close>

definition reference_attack_ids :: "raw_heuristic \<Rightarrow> string list option" where
  "reference_attack_ids rh = (case raw_attack_ids rh of None \<Rightarrow> Some [] | Some l \<Rightarrow> l)"

definition reference_signatures :: "raw_heuristic \<Rightarrow> signatures_value" where
  "reference_signatures rh = (case raw_signatures rh of None \<Rightarrow> SigList [] | Some v \<Rightarrow> v)"

definition reference_frequency :: "raw_heuristic \<Rightarrow> int" where
  "reference_frequency rh = (case raw_frequency rh of None \<Rightarrow> 0 | Some f \<Rightarrow> f)"

definition reference_score :: "env \<Rightarrow> string \<Rightarrow> raw_heuristic \<Rightarrow> exn + int" where
  "reference_score env sname rh =
     Heuristic_score (heuristics env) (attack_map env) (namespaced_id env sname rh)
       (reference_attack_ids rh) (reference_signatures rh) (reference_frequency rh)"

text \<open>
  The structured records of a scored heuristic, as the specification describes them:
  one attack record, with the pattern and categories of the registry, for each
  candidate id that the registry knows, in the order given; one signature record for
  each (name, frequency) pair of the reference.
\<close>

definition expected_attack :: "(string \<rightharpoonup> attack_entry) \<Rightarrow> string list option \<Rightarrow> attack_item list" where
  "expected_attack am aids =
     List.map_filter
       (\<lambda>a. case am a of
               None \<Rightarrow> None
             | Some entry \<Rightarrow> Some \<lparr>attack_id = a, pattern = attack_name entry,
                                   categories = attack_categories entry\<rparr>)
       (case aids of None \<Rightarrow> [] | Some l \<Rightarrow> l)"

definition expected_signature :: "signatures_value \<Rightarrow> signature_item list" where
  "expected_signature sv =
     (case sv of
        SigDict items \<Rightarrow>
          map (\<lambda>(n, f). \<lparr>sig_item_name = n, sig_item_frequency = f\<rparr>) items
      | _ \<Rightarrow> [])"

text \<open>
  A section the scorer can process: its heuristic reference, if it has one, carries
  the key \<^verbatim>\<open>heur_id\<close> and, when the namespaced id is in the catalog, an object under
  the key \<^verbatim>\<open>signatures\<close>.
\<close>

definition scorable_reference :: "env \<Rightarrow> string \<Rightarrow> raw_section \<Rightarrow> bool" where
  "scorable_reference env sname sec =
     (case sec_heuristic sec of
        Ref_dict rh \<Rightarrow>
          raw_heur_id rh \<noteq> None \<and>
          (heuristics env (namespaced_id env sname rh) \<noteq> None \<longrightarrow>
             (case raw_signatures rh of Some (SigDict items) \<Rightarrow> True | _ \<Rightarrow> False))
      | _ \<Rightarrow> True)"

text \<open>
  What finalisation owes a section: title and tags are kept; a section without a
  reference keeps its falsy value; a reference whose namespaced id is not in the
  catalog becomes \<^verbatim>\<open>None\<close>; a reference whose id is in the catalog becomes the scored
  heuristic under that id, with the score the scorer computes from the reference, the
  name of the catalog entry, and the attack and signature records of the reference.
\<close>

definition finalised_as :: "env \<Rightarrow> string \<Rightarrow> raw_section \<Rightarrow> result_section \<Rightarrow> bool" where
  "finalised_as env sname sec sec' =
     (title_text sec' = sec_title_text sec \<and>
      (case sec_heuristic sec of
         Ref_none \<Rightarrow> heuristic sec' = No_heuristic
       | Ref_empty \<Rightarrow> heuristic sec' = Empty_heuristic
       | Ref_dict rh \<Rightarrow>
           (case heuristics env (namespaced_id env sname rh) of
              None \<Rightarrow> heuristic sec' = No_heuristic
            | Some d \<Rightarrow>
                (case heuristic sec' of
                   Scored sh \<Rightarrow>
                     sh_heur_id sh = namespaced_id env sname rh \<and>
                     reference_score env sname rh = Inr (sh_score sh) \<and>
                     sh_name sh = def_name d \<and>
                     sh_attack sh = expected_attack (attack_map env) (reference_attack_ids rh) \<and>
                     sh_signature sh = expected_signature (reference_signatures rh)
                 | _ \<Rightarrow> False))))"

text \<open>The results that a list of calls hands to \<^verbatim>\<open>service_finished\<close>.\<close>

definition finished_results :: "event list \<Rightarrow> result_model list" where
  "finished_results evs =
     concat (map (\<lambda>ev. case ev of Service_finished s k m t \<Rightarrow> [m] | _ \<Rightarrow> []) evs)"

text \<open>
  The pickup of a task misses the cache: caching is permitted for the task and the
  service, and both lookups return nothing.
\<close>

definition cache_missed :: "env \<Rightarrow> client_info \<Rightarrow> task \<Rightarrow> bool" where
  "cache_missed env ci tsk =
     (let k = help_build_key env (fileinfo_sha256 tsk) (service_name ci) (service_version ci)
                (client_service_tool_version ci) False tsk
      in case service_data env (service_name ci) of
           None \<Rightarrow> False
         | Some sd \<Rightarrow>
             \<not> ignore_cache tsk \<and> \<not> disable_cache sd \<and>
             result_get_if_exists env k = Inr None \<and>
             emptyresult_get_if_exists env (k @ ''.e'') = Inr None)"

section \<open>Concrete catalog, collaborators and reports\<close>

definition extract_heuristic :: heuristic_definition where
  "extract_heuristic =
     \<lparr>def_name = ''Extraction'', def_classification = ''U'', def_score = 10,
      def_max_score = None, def_signature_score_map = [''sigA'' \<mapsto> 20]\<rparr>"

definition extract_catalog :: "string \<rightharpoonup> heuristic_definition" where
  "extract_catalog = [''EXTRACT.1'' \<mapsto> extract_heuristic]"

definition extract_catalog_max50 :: "string \<rightharpoonup> heuristic_definition" where
  "extract_catalog_max50 = [''EXTRACT.1'' \<mapsto> extract_heuristic\<lparr>def_max_score := Some 50\<rparr>]"

definition zero_max_catalog :: "string \<rightharpoonup> heuristic_definition" where
  "zero_max_catalog =
     [''EXTRACT.1'' \<mapsto> extract_heuristic\<lparr>def_score := 0, def_max_score := Some 0\<rparr>]"

text \<open>\<^verbatim>\<open>str.upper\<close> as it acts on a text of ASCII characters.\<close>

definition ascii_upper_char :: "char \<Rightarrow> char" where
  "ascii_upper_char c =
     (case map_of (zip ''abcdefghijklmnopqrstuvwxyz'' ''ABCDEFGHIJKLMNOPQRSTUVWXYZ'') c of
        Some u \<Rightarrow> u
      | None \<Rightarrow> c)"

definition ascii_upper :: "string \<Rightarrow> string" where
  "ascii_upper s = map ascii_upper_char s"

definition demo_task :: task where
  "demo_task = \<lparr>sid = ''sid-1'', fileinfo_sha256 = ''f00d'', ignore_cache = False, ttl = 0\<rparr>"

definition demo_client :: client_info where
  "demo_client =
     \<lparr>client_id = ''container-1'', service_name = ''Extract'', service_version = ''4.0.1'',
      client_service_tool_version = ''tool-1''\<rparr>"

definition empty_result :: result_model where
  "empty_result =
     \<lparr>result_sections = [], result_score = 0,
      response = \<lparr>extracted = [], supplementary = [], service_tool_version = ''tool-1''\<rparr>,
      created = ''t0'', archive_ts = ''t1'', expiry_ts = None\<rparr>"

definition cached_result :: result_model where
  "cached_result = empty_result\<lparr>result_score := 80\<rparr>"

definition demo_env :: env where
  "demo_env =
     \<lparr>heuristics = extract_catalog,
      attack_map = [''T1027'' \<mapsto> \<lparr>attack_name = ''Obfuscated Files'',
                                    attack_categories = [''defense-evasion'']\<rparr>],
      service_data = [''Extract'' \<mapsto> \<lparr>timeout = 60, disable_cache = False\<rparr>],
      request_work = (\<lambda>c s v tmo. Inr (Some demo_task)),
      help_build_key = (\<lambda>sha s v tv e t. sha @ ''.'' @ s),
      result_get_if_exists = (\<lambda>k. Inr None),
      emptyresult_get_if_exists = (\<lambda>k. Inr None),
      create_empty_result_from_key = (\<lambda>k. empty_result),
      file_get_if_exists = [''aa'' \<mapsto> ''meta''],
      filestore_exists = (\<lambda>h. h = ''aa''),
      whitelist_tags = (\<lambda>t. t),
      construct_safe_Tagging = (\<lambda>t. (t, [])),
      ServiceTask_model = (\<lambda>t. None),
      Result_model = (\<lambda>m. None),
      Error_model = (\<lambda>e. None),
      result_build_key = (\<lambda>m tv t. ''key'' ),
      error_build_key = (\<lambda>e tv t. ''ekey''),
      now_as_iso = (\<lambda>off. if off = 0 then ''now'' else ''later''),
      time_time = (\<lambda>n. 1000 + of_nat n),
      float_add = (\<lambda>x n. x + of_int n),
      str_upper = ascii_upper,
      days_until_archive = 15\<rparr>"

text \<open>An empty queue, a store holding the cached result, and a service that disables caching.\<close>

definition idle_env :: env where
  "idle_env = demo_env\<lparr>request_work := (\<lambda>c s v tmo. Inr None)\<rparr>"

definition cached_env :: env where
  "cached_env = demo_env\<lparr>result_get_if_exists := (\<lambda>k. Inr (Some cached_result))\<rparr>"

definition nocache_env :: env where
  "nocache_env =
     cached_env\<lparr>service_data := [''Extract'' \<mapsto> \<lparr>timeout = 60, disable_cache = True\<rparr>]\<rparr>"

text \<open>
  A store holding only the empty-result marker, a task that bypasses the cache, and a
  dispatch client that does not know the service.
\<close>

definition marker_env :: env where
  "marker_env = demo_env\<lparr>emptyresult_get_if_exists := (\<lambda>k. Inr (Some ()))\<rparr>"

definition bypass_env :: env where
  "bypass_env =
     cached_env\<lparr>request_work := (\<lambda>c s v tmo. Inr (Some (demo_task\<lparr>ignore_cache := True\<rparr>)))\<rparr>"

definition unknown_service_env :: env where
  "unknown_service_env = demo_env\<lparr>service_data := Map.empty\<rparr>"

definition valid_ref :: raw_heuristic where
  "valid_ref =
     \<lparr>raw_heur_id = Some ''1'', raw_attack_ids = Some (Some [''T1027'', ''T0000'']),
      raw_signatures = Some (SigDict [(''sigA'', 2), (''sigB'', 3)]),
      raw_frequency = Some 1\<rparr>"

definition unknown_ref :: raw_heuristic where
  "unknown_ref =
     \<lparr>raw_heur_id = Some ''99'', raw_attack_ids = None, raw_signatures = None,
      raw_frequency = None\<rparr>"

definition no_signatures_ref :: raw_heuristic where
  "no_signatures_ref = valid_ref\<lparr>raw_signatures := None\<rparr>"

definition section_with :: "heuristic_ref \<Rightarrow> raw_section" where
  "section_with h = \<lparr>sec_title_text = ''finding'', sec_heuristic = h, sec_tags = Some []\<rparr>"

definition payload_with :: "raw_section list \<Rightarrow> file_ref list \<Rightarrow> result_payload" where
  "payload_with secs files =
     \<lparr>payload_result = Some \<lparr>sections = secs, declared_score = Some 1000\<rparr>,
      payload_response = \<lparr>extracted = files, supplementary = [],
                          service_tool_version = ''tool-1''\<rparr>,
      payload_temp_submission_data = None,
      payload_created = None, payload_archive_ts = None, payload_expiry_ts = None\<rparr>"

definition report_with :: "result_payload \<Rightarrow> report_data" where
  "report_with r =
     \<lparr>data_exec_time = Some 300, data_task = Some demo_task, data_result = Some r,
      data_error = None\<rparr>"

definition two_sections :: "raw_section list" where
  "two_sections = [section_with (Ref_dict unknown_ref), section_with (Ref_dict valid_ref)]"

text \<open>The result that the report with the sections \<open>two_sections\<close> hands to the dispatcher.\<close>

definition stored_two_sections :: result_model where
  "stored_two_sections =
     \<lparr>result_sections =
        [\<lparr>title_text = ''finding'', heuristic = No_heuristic, section_tags = Some []\<rparr>,
         \<lparr>title_text = ''finding'',
          heuristic = Scored
            \<lparr>sh_heur_id = ''EXTRACT.1'', sh_score = 80, sh_name = ''Extraction'',
             sh_attack = [\<lparr>attack_id = ''T1027'', pattern = ''Obfuscated Files'',
                           categories = [''defense-evasion'']\<rparr>],
             sh_signature = [\<lparr>sig_item_name = ''sigA'', sig_item_frequency = 2\<rparr>,
                             \<lparr>sig_item_name = ''sigB'', sig_item_frequency = 3\<rparr>]\<rparr>,
          section_tags = Some []\<rparr>],
      result_score = 80,
      response = \<lparr>extracted = [], supplementary = [], service_tool_version = ''tool-1''\<rparr>,
      created = ''now'', archive_ts = ''later'', expiry_ts = None\<rparr>"

definition broken_sections :: "raw_section list" where
  "broken_sections =
     [section_with (Ref_dict unknown_ref), section_with (Ref_dict no_signatures_ref)]"

section \<open>Unfolding rules\<close>

lemmas scorer_defs = Heuristic_score_def Heuristic_init_def scoring_boundaries_def
  signatures_or_empty_def

lemmas catalog_defs = extract_heuristic_def extract_catalog_def extract_catalog_max50_def
  zero_max_catalog_def

lemmas demo_defs = demo_task_def demo_client_def empty_result_def cached_result_def demo_env_def
  idle_env_def cached_env_def nocache_env_def marker_env_def bypass_env_def
  unknown_service_env_def valid_ref_def unknown_ref_def no_signatures_ref_def
  section_with_def payload_with_def report_with_def two_sections_def broken_sections_def stored_two_sections_def

lemmas finalizer_defs = task_finished_def handle_task_result_def handle_task_error_def
  prepare_result_def score_section_def signature_items_def missing_files_of_def file_missing_def
  except_ValueError_def make_api_response_def ascii_upper_def ascii_upper_char_def

lemmas reference_defs = namespaced_id_def reference_attack_ids_def reference_signatures_def
  reference_frequency_def reference_score_def

lemmas pickup_defs = get_task_def get_task_try_def read_timeout_def int_of_float_def
  make_api_response_def

section \<open>The heuristic scorer\<close>

lemma signature_score_sum:
  "signature_score d sigs sc =
     sc + sum_list (map (\<lambda>(s, f). (case def_signature_score_map d s of
                                    Some v \<Rightarrow> v | None \<Rightarrow> def_score d) * f) sigs)"
  by (induction sigs arbitrary: sc) (auto split: option.splits)

text \<open>
  Claim C1, as stated, fails: a catalog entry whose max score is configured as \<open>0\<close> is
  not bounded by it. With base score 0, override \<open>sigA \<mapsto> 20\<close>, max score 0 and
  the signatures \<open>{sigA: 1}\<close>, the scorer yields 20, where the formula of the
  specification yields 0.
\<close>

theorem zero_max_score_is_no_bound:
  "Heuristic_score zero_max_catalog Map.empty ''EXTRACT.1'' None (SigDict [(''sigA'', 1)]) 0 = Inr 20 \<and>
   spec_score 0 [''sigA'' \<mapsto> 20] (Some 0) [(''sigA'', 1)] 0 = 0 \<and>
   Heuristic_score zero_max_catalog Map.empty ''EXTRACT.1'' None (SigDict [(''sigA'', 1)]) 0 \<noteq>
     Inr (spec_score 0 [''sigA'' \<mapsto> 20] (Some 0) [(''sigA'', 1)] 0)"
  by (simp add: scorer_defs catalog_defs spec_score_def)

text \<open>
  Claim C1, amended: for a heuristic id that resolves to a definition with base score
  \<open>B\<close>, overrides \<open>O\<close> and optional max score \<open>M\<close>, the score is the sum over the
  (signature, frequency) pairs of (\<open>O[s]\<close> if \<open>s\<close> is in \<open>O\<close>, else \<open>B\<close>) times the
  frequency, plus \<open>B\<close> times the occurrence frequency; then the max with \<open>B\<close>; then, if
  a max score is configured and is not zero, the min with \<open>M\<close>.
\<close>

theorem Heuristic_score_formula:
  assumes "hs hid = Some d"
  shows "Heuristic_score hs am hid aids (SigDict sigs) frequency =
           Inr (let total = sum_list (map (\<lambda>(s, f). (case def_signature_score_map d s of
                                                       Some v \<Rightarrow> v | None \<Rightarrow> def_score d) * f) sigs)
                            + def_score d * frequency;
                    floored = max total (def_score d)
                in case def_max_score d of
                     None \<Rightarrow> floored
                   | Some m \<Rightarrow> if m = 0 then floored else min floored m)"
  using assms
  by (simp add: scorer_defs signature_score_sum Let_def max.commute split: option.splits)

text \<open>
  The two examples of the specification: base score 10, override \<open>{sigA: 20}\<close>,
  signatures \<open>{sigA: 2, sigB: 3}\<close>, frequency 1 give 80, and 50 with max score 50.
\<close>

theorem Heuristic_score_formula_witness:
  "extract_catalog ''EXTRACT.1'' = Some extract_heuristic \<and>
   Heuristic_score extract_catalog Map.empty ''EXTRACT.1'' None
     (SigDict [(''sigA'', 2), (''sigB'', 3)]) 1 = Inr 80 \<and>
   Heuristic_score extract_catalog_max50 Map.empty ''EXTRACT.1'' None
     (SigDict [(''sigA'', 2), (''sigB'', 3)]) 1 = Inr 50"
proof -
  have h1: "extract_catalog ''EXTRACT.1'' = Some extract_heuristic"
    by (simp add: catalog_defs)
  have h2: "extract_catalog_max50 ''EXTRACT.1'' = Some (extract_heuristic\<lparr>def_max_score := Some 50\<rparr>)"
    by (simp add: catalog_defs)
  show ?thesis
    using h1 h2
      Heuristic_score_formula [of extract_catalog "''EXTRACT.1''" extract_heuristic
        Map.empty None "[(''sigA'', 2), (''sigB'', 3)]" 1]
      Heuristic_score_formula [of extract_catalog_max50 "''EXTRACT.1''"
        "extract_heuristic\<lparr>def_max_score := Some 50\<rparr>"
        Map.empty None "[(''sigA'', 2), (''sigB'', 3)]" 1]
    by (simp add: extract_heuristic_def)
qed

text \<open>
  Claim C9 does not hold of the code: a section whose heuristic reference resolves in
  the catalog but has no key \<^verbatim>\<open>signatures\<close> makes the finalisation raise
  \<^verbatim>\<open>AttributeError\<close>, which leaves \<^verbatim>\<open>task_finished\<close> uncaught and before any call on
  the dispatch client.
\<close>

theorem omitted_signatures_raise_AttributeError:
  "heuristics demo_env (namespaced_id demo_env ''Extract'' no_signatures_ref) =
     Some extract_heuristic \<and>
   task_finished demo_env demo_client
     (report_with (payload_with [section_with (Ref_dict no_signatures_ref)] []))
     = (Inl (AttributeError ''items''), [])"
  by (simp add: finalizer_defs demo_defs catalog_defs scorer_defs namespaced_id_def)

section \<open>The report handler\<close>

text \<open>
  Claim C8 does not hold of the code: a body without the key \<^verbatim>\<open>task\<close>, and a result
  without its sub-object \<^verbatim>\<open>result\<close>, raise \<^verbatim>\<open>KeyError\<close>, which the clause
  \<^verbatim>\<open>except ValueError\<close> does not catch; no response with status 400 is built.
\<close>

theorem missing_key_raises_KeyError:
  "task_finished demo_env demo_client
     \<lparr>data_exec_time = Some 300, data_task = None,
      data_result = Some (payload_with [] []), data_error = None\<rparr> = (Inl (KeyError ''task''), []) \<and>
   task_finished demo_env demo_client
     (report_with ((payload_with [] [])\<lparr>payload_result := None\<rparr>)) = (Inl (KeyError ''result''), [])"
  by (simp add: finalizer_defs demo_defs)

section \<open>The pickup handler\<close>

lemmas event_preds = is_service_finished_def is_cache_lookup_def is_execute_metric_def
  request_work_timeouts_def

lemma int_of_float_nonpos: "q \<le> 0 \<Longrightarrow> int_of_float q \<le> 0"
  by (auto simp: int_of_float_def ceiling_le_zero)

lemma get_task_try_no_request_work:
  "get_task_try env ci tsk = (out, cm, evs) \<Longrightarrow> request_work_timeouts evs = []"
  by (auto simp: get_task_try_def request_work_timeouts_def Let_def
      split: option.splits sum.splits if_splits)

lemma get_task_try_no_metric:
  "get_task_try env ci tsk = (out, cm, evs) \<Longrightarrow> filter is_execute_metric evs = []"
  by (auto simp: get_task_try_def is_execute_metric_def Let_def
      split: option.splits sum.splits if_splits)

lemma get_task_try_cache_miss:
  "get_task_try env ci tsk = (out, cm, evs) \<Longrightarrow> cm = cache_missed env ci tsk"
  by (auto simp: get_task_try_def cache_missed_def Let_def
      split: option.splits sum.splits if_splits)

text \<open>
  Claim C3: when a task is obtained, neither the task nor the service forbids caching,
  and the datastore holds a cached result under the key of the task (or, failing that,
  the empty-result marker under the key with the suffix \<^verbatim>\<open>.e\<close>), the handler answers
  \<^verbatim>\<open>task=False\<close>, never the task, and calls \<^verbatim>\<open>service_finished\<close> exactly once, with the
  sid of the task and the cached result (or the result built from the key).
\<close>

theorem cache_hit_finishes_task:
  assumes "read_timeout hdr = Inr tmo"
      and "request_work env (client_id ci) (service_name ci) (service_version ci) tmo = Inr (Some tsk)"
      and "service_data env (service_name ci) = Some sd"
      and "\<not> ignore_cache tsk" and "\<not> disable_cache sd"
      and "k = help_build_key env (fileinfo_sha256 tsk) (service_name ci) (service_version ci)
                 (client_service_tool_version ci) False tsk"
      and "result_get_if_exists env k = Inr (Some cached) \<or>
           (result_get_if_exists env k = Inr None \<and>
            emptyresult_get_if_exists env (k @ ''.e'') = Inr (Some marker))"
  shows "fst (get_task env ci hdr) = Inr (make_api_response Body_task_false) \<and>
         (\<forall>t. fst (get_task env ci hdr) \<noteq> Inr (make_api_response (Body_task t))) \<and>
         filter is_service_finished (snd (get_task env ci hdr)) =
           [if result_get_if_exists env k = Inr (Some cached)
            then Service_finished (sid tsk) k cached None
            else Service_finished (sid tsk) (k @ ''.e'') (create_empty_result_from_key env k) None]"
  using assms
  by (auto simp: get_task_def get_task_try_def make_api_response_def is_service_finished_def Let_def)

theorem cache_hit_finishes_task_witness:
  "fst (get_task cached_env demo_client Header_absent) = Inr (make_api_response Body_task_false) \<and>
   filter is_service_finished (snd (get_task cached_env demo_client Header_absent)) =
     [Service_finished ''sid-1'' ''f00d.Extract'' cached_result None] \<and>
   fst (get_task marker_env demo_client Header_absent) = Inr (make_api_response Body_task_false) \<and>
   filter is_service_finished (snd (get_task marker_env demo_client Header_absent)) =
     [Service_finished ''sid-1'' ''f00d.Extract.e'' empty_result None]"
proof -
  have h: "read_timeout Header_absent = Inr 30" by (simp add: read_timeout_def)
  have a: "fst (get_task cached_env demo_client Header_absent) = Inr (make_api_response Body_task_false) \<and>
     filter is_service_finished (snd (get_task cached_env demo_client Header_absent)) =
       [Service_finished ''sid-1'' ''f00d.Extract'' cached_result None]"
    using cache_hit_finishes_task [OF h, of cached_env demo_client demo_task
        "\<lparr>timeout = 60, disable_cache = False\<rparr>" "''f00d.Extract''" cached_result "()"]
    by (simp add: demo_defs)
  have b: "fst (get_task marker_env demo_client Header_absent) = Inr (make_api_response Body_task_false) \<and>
     filter is_service_finished (snd (get_task marker_env demo_client Header_absent)) =
       [Service_finished ''sid-1'' ''f00d.Extract.e'' empty_result None]"
    using cache_hit_finishes_task [OF h, of marker_env demo_client demo_task
        "\<lparr>timeout = 60, disable_cache = False\<rparr>" "''f00d.Extract''" cached_result "()"]
    by (simp add: demo_defs)
  from a b show ?thesis by simp
qed

text \<open>
  Claim C5, as stated, fails: a pickup that finds the queue empty returns before the
  \<^verbatim>\<open>try\<close> block and exports no metric.
\<close>

theorem empty_poll_exports_no_metric:
  "fst (get_task idle_env demo_client Header_absent) = Inr (Api_response Body_task_false [] 200) \<and>
   filter is_execute_metric (snd (get_task idle_env demo_client Header_absent)) = [] \<and>
   length (filter is_execute_metric (snd (get_task idle_env demo_client Header_absent))) \<noteq> 1"
  by (simp add: pickup_defs demo_defs event_preds)

text \<open>
  Claim C5, amended: whenever the dispatch client hands out a task, the handler exports
  exactly one \<^verbatim>\<open>execute\<close> metric, as its last call, on every way out of the \<^verbatim>\<open>try\<close>
  block (cache hit, task returned, exception raised), and \<^verbatim>\<open>cache_miss\<close> is 1 exactly
  when caching was permitted and both lookups found nothing; when the queue is empty
  no metric is exported.
\<close>

theorem execute_metric_once_per_task:
  assumes "read_timeout hdr = Inr tmo"
  shows "(\<forall>tsk. request_work env (client_id ci) (service_name ci) (service_version ci) tmo = Inr (Some tsk) \<longrightarrow>
            (\<exists>evs. snd (get_task env ci hdr) =
                     evs @ [Export_metrics (service_name ci) (client_id ci)
                              [(''execute'', 1),
                               (''cache_miss'', if cache_missed env ci tsk then 1 else 0)]] \<and>
                   filter is_execute_metric evs = [])) \<and>
         (request_work env (client_id ci) (service_name ci) (service_version ci) tmo = Inr None \<longrightarrow>
            filter is_execute_metric (snd (get_task env ci hdr)) = [])"
proof (intro conjI allI impI)
  fix tsk
  assume rw: "request_work env (client_id ci) (service_name ci) (service_version ci) tmo = Inr (Some tsk)"
  obtain out cm evs where g: "get_task_try env ci tsk = (out, cm, evs)"
    by (cases "get_task_try env ci tsk") auto
  let ?evs0 = "[Status_set (client_id ci) (service_name ci) Idle
                  (float_add env (float_add env (time_time env 0) tmo) 5),
                Request_work (client_id ci) (service_name ci) (service_version ci) tmo]"
  have "snd (get_task env ci hdr) =
          (?evs0 @ evs) @ [Export_metrics (service_name ci) (client_id ci)
                              [(''execute'', 1), (''cache_miss'', if cache_missed env ci tsk then 1 else 0)]]"
    using assms rw g get_task_try_cache_miss [OF g] by (simp add: get_task_def)
  moreover have "filter is_execute_metric (?evs0 @ evs) = []"
    using get_task_try_no_metric [OF g] by (simp add: is_execute_metric_def)
  ultimately show "\<exists>evs. snd (get_task env ci hdr) =
                     evs @ [Export_metrics (service_name ci) (client_id ci)
                              [(''execute'', 1),
                               (''cache_miss'', if cache_missed env ci tsk then 1 else 0)]] \<and>
                   filter is_execute_metric evs = []"
    by blast
next
  assume "request_work env (client_id ci) (service_name ci) (service_version ci) tmo = Inr None"
  then show "filter is_execute_metric (snd (get_task env ci hdr)) = []"
    using assms by (simp add: get_task_def is_execute_metric_def)
qed

theorem execute_metric_once_per_task_witness:
  "read_timeout Header_absent = Inr 30 \<and>
   filter is_execute_metric (snd (get_task demo_env demo_client Header_absent)) =
     [Export_metrics ''Extract'' ''container-1'' [(''execute'', 1), (''cache_miss'', 1)]] \<and>
   fst (get_task unknown_service_env demo_client Header_absent) = Inl (KeyError ''Extract'') \<and>
   filter is_execute_metric (snd (get_task unknown_service_env demo_client Header_absent)) =
     [Export_metrics ''Extract'' ''container-1'' [(''execute'', 1), (''cache_miss'', 0)]]"
proof -
  have h: "read_timeout Header_absent = Inr 30" by (simp add: read_timeout_def)
  have r1: "request_work demo_env (client_id demo_client) (service_name demo_client)
              (service_version demo_client) 30 = Inr (Some demo_task)"
    by (simp add: demo_defs)
  have r2: "request_work unknown_service_env (client_id demo_client) (service_name demo_client)
              (service_version demo_client) 30 = Inr (Some demo_task)"
    by (simp add: demo_defs)
  have c1: "cache_missed demo_env demo_client demo_task"
    by (simp add: cache_missed_def demo_defs)
  have c2: "\<not> cache_missed unknown_service_env demo_client demo_task"
    by (simp add: cache_missed_def demo_defs)
  have e: "fst (get_task unknown_service_env demo_client Header_absent) = Inl (KeyError ''Extract'')"
    by (simp add: pickup_defs demo_defs)
  from execute_metric_once_per_task [OF h, of demo_env demo_client] r1 c1
  obtain evs1 where
    "snd (get_task demo_env demo_client Header_absent) =
       evs1 @ [Export_metrics (service_name demo_client) (client_id demo_client)
                 [(''execute'', 1), (''cache_miss'', 1)]]"
    "filter is_execute_metric evs1 = []"
    by auto
  moreover from execute_metric_once_per_task [OF h, of unknown_service_env demo_client] r2 c2
  obtain evs2 where
    "snd (get_task unknown_service_env demo_client Header_absent) =
       evs2 @ [Export_metrics (service_name demo_client) (client_id demo_client)
                 [(''execute'', 1), (''cache_miss'', 0)]]"
    "filter is_execute_metric evs2 = []"
    by auto
  ultimately show ?thesis using h e
    by (simp add: is_execute_metric_def demo_client_def)
qed

text \<open>
  Claim C6: when the obtained task asks to bypass the cache or the service disables
  caching, the handler looks up neither a cached result nor an empty-result marker,
  whatever the datastore holds, and returns the task to the worker.
\<close>

theorem cache_disabled_no_lookup:
  assumes "read_timeout hdr = Inr tmo"
      and "request_work env (client_id ci) (service_name ci) (service_version ci) tmo = Inr (Some tsk)"
      and "service_data env (service_name ci) = Some sd"
      and "ignore_cache tsk \<or> disable_cache sd"
  shows "filter is_cache_lookup (snd (get_task env ci hdr)) = [] \<and>
         fst (get_task env ci hdr) = Inr (make_api_response (Body_task tsk))"
  using assms
  by (auto simp: get_task_def get_task_try_def is_cache_lookup_def Let_def)

theorem cache_disabled_no_lookup_witness:
  "result_get_if_exists nocache_env ''f00d.Extract'' = Inr (Some cached_result) \<and>
   filter is_cache_lookup (snd (get_task nocache_env demo_client Header_absent)) = [] \<and>
   fst (get_task nocache_env demo_client Header_absent) = Inr (make_api_response (Body_task demo_task)) \<and>
   filter is_cache_lookup (snd (get_task bypass_env demo_client Header_absent)) = [] \<and>
   fst (get_task bypass_env demo_client Header_absent) =
     Inr (make_api_response (Body_task (demo_task\<lparr>ignore_cache := True\<rparr>)))"
proof -
  have h: "read_timeout Header_absent = Inr 30" by (simp add: read_timeout_def)
  have a: "filter is_cache_lookup (snd (get_task nocache_env demo_client Header_absent)) = [] \<and>
     fst (get_task nocache_env demo_client Header_absent) = Inr (make_api_response (Body_task demo_task))"
    using cache_disabled_no_lookup [OF h, of nocache_env demo_client demo_task
        "\<lparr>timeout = 60, disable_cache = True\<rparr>"]
    by (simp add: demo_defs)
  have b: "filter is_cache_lookup (snd (get_task bypass_env demo_client Header_absent)) = [] \<and>
     fst (get_task bypass_env demo_client Header_absent) =
       Inr (make_api_response (Body_task (demo_task\<lparr>ignore_cache := True\<rparr>)))"
    using cache_disabled_no_lookup [OF h, of bypass_env demo_client
        "demo_task\<lparr>ignore_cache := True\<rparr>" "\<lparr>timeout = 60, disable_cache = False\<rparr>"]
    by (simp add: demo_defs)
  have c: "result_get_if_exists nocache_env ''f00d.Extract'' = Inr (Some cached_result)"
    by (simp add: demo_defs)
  from a b c show ?thesis by simp
qed

text \<open>
  Claim C7, as stated, fails: with the header \<^verbatim>\<open>timeout\<close> equal to 0 the call is not
  rejected and \<^verbatim>\<open>request_work\<close> is called with the timeout 0.
\<close>

theorem zero_timeout_reaches_request_work:
  "request_work_timeouts (snd (get_task demo_env demo_client (Header_number 0))) = [0] \<and>
   fst (get_task demo_env demo_client (Header_number 0)) = Inr (Api_response (Body_task demo_task) [] 200)"
  by (simp add: pickup_defs demo_defs event_preds)

text \<open>
  Claim C7, amended: a zero or negative finite number in the header \<^verbatim>\<open>timeout\<close> is
  truncated towards zero and passed as it is, still zero or negative, to
  \<^verbatim>\<open>request_work\<close>, once, right after the client is recorded as idle; the handler
  neither rejects the call nor raises the value to a minimum. A header that reads as
  an infinity makes \<^verbatim>\<open>int\<close> raise \<^verbatim>\<open>OverflowError\<close> before any call is made.
\<close>

theorem timeout_passed_unclamped:
  assumes "q \<le> 0"
  shows "int_of_float q \<le> 0 \<and>
         request_work_timeouts (snd (get_task env ci (Header_number q))) = [int_of_float q] \<and>
         (\<exists>deadline rest. snd (get_task env ci (Header_number q)) =
            Status_set (client_id ci) (service_name ci) Idle deadline #
            Request_work (client_id ci) (service_name ci) (service_version ci) (int_of_float q) # rest) \<and>
         (\<exists>msg. get_task env ci Header_infinite = (Inl (OverflowError msg), []))"
proof -
  let ?t = "int_of_float q"
  have rt: "read_timeout (Header_number q) = Inr ?t" by (simp add: read_timeout_def)
  have inf: "\<exists>msg. get_task env ci Header_infinite = (Inl (OverflowError msg), [])"
    by (simp add: get_task_def read_timeout_def)
  show ?thesis
  proof (cases "request_work env (client_id ci) (service_name ci) (service_version ci) ?t")
    case (Inl e)
    then show ?thesis using assms rt inf
      by (simp add: get_task_def request_work_timeouts_def int_of_float_nonpos)
  next
    case (Inr ot)
    show ?thesis
    proof (cases ot)
      case None
      then show ?thesis using assms rt Inr inf
        by (simp add: get_task_def make_api_response_def request_work_timeouts_def int_of_float_nonpos)
    next
      case (Some tsk)
      obtain out cm evs where g: "get_task_try env ci tsk = (out, cm, evs)"
        by (cases "get_task_try env ci tsk") auto
      from get_task_try_no_request_work [OF g]
      have "request_work_timeouts evs = []" .
      then show ?thesis using assms rt Inr Some g inf
        by (simp add: get_task_def request_work_timeouts_def int_of_float_nonpos)
    qed
  qed
qed

theorem timeout_passed_unclamped_witness:
  "(- 3 / 2 :: rat) \<le> 0 \<and>
   request_work_timeouts (snd (get_task idle_env demo_client (Header_number (- 3 / 2)))) = [- 1]"
proof -
  have h: "(- 3 / 2 :: rat) \<le> 0" by simp
  have "\<lceil>- (3 / 2) :: rat\<rceil> = - 1" by (rule ceiling_unique) simp_all
  then have t: "int_of_float (- 3 / 2) = - 1" by (simp add: int_of_float_def)
  show ?thesis using h t timeout_passed_unclamped [OF h, of idle_env demo_client] by simp
qed

section \<open>Result finalisation: scoring, tags, files\<close>

lemma valid_attack_ids_eq:
  "valid_attack_ids am l acc = acc @ filter (\<lambda>a. am a \<noteq> None) l"
  by (induction l arbitrary: acc) simp_all

lemma attack_items_filter:
  "attack_items am (filter (\<lambda>a. am a \<noteq> None) l) = Inr (expected_attack am (Some l))"
  by (induction l) (auto simp: expected_attack_def List.map_filter_simps)

lemma attack_items_valid:
  "attack_items am (valid_attack_ids am (case aids of None \<Rightarrow> [] | Some l \<Rightarrow> l) []) =
     Inr (expected_attack am aids)"
proof (cases aids)
  case None
  then show ?thesis by (simp add: expected_attack_def List.map_filter_simps)
next
  case (Some l)
  then show ?thesis using attack_items_filter [of am l] by (simp add: valid_attack_ids_eq)
qed

lemma score_section_dict:
  assumes "sec_heuristic sec = Ref_dict rh" and "raw_heur_id rh = Some raw_id"
  shows "score_section env sname sec t =
           (case heuristics env (namespaced_id env sname rh) of
              None \<Rightarrow> Inr (\<lparr>title_text = sec_title_text sec, heuristic = No_heuristic,
                            section_tags = sec_tags sec\<rparr>, t)
            | Some d \<Rightarrow>
                (case reference_signatures rh of
                   SigDict items \<Rightarrow>
                     Inr (\<lparr>title_text = sec_title_text sec,
                           heuristic = Scored
                             \<lparr>sh_heur_id = namespaced_id env sname rh,
                              sh_score = scoring_boundaries d
                                (signature_score d items 0 + def_score d * reference_frequency rh),
                              sh_name = def_name d,
                              sh_attack = expected_attack (attack_map env) (reference_attack_ids rh),
                              sh_signature = expected_signature (SigDict items)\<rparr>,
                           section_tags = sec_tags sec\<rparr>,
                          t + scoring_boundaries d
                                (signature_score d items 0 + def_score d * reference_frequency rh))
                 | _ \<Rightarrow> Inl (AttributeError ''items'')))"
proof (cases "heuristics env (namespaced_id env sname rh)")
  case None
  then show ?thesis using assms
    by (simp add: score_section_def namespaced_id_def Heuristic_init_def)
next
  case (Some d)
  show ?thesis
  proof (cases "reference_signatures rh")
    case (SigDict items)
    then show ?thesis using assms Some
        attack_items_valid [of "attack_map env" "reference_attack_ids rh"]
      by (simp add: score_section_def namespaced_id_def Heuristic_init_def Let_def
          reference_attack_ids_def reference_signatures_def reference_frequency_def
          signature_items_def signatures_or_empty_def expected_signature_def
          split: list.splits)
  next
    case (SigList l)
    then show ?thesis using assms Some
      by (simp add: score_section_def namespaced_id_def Heuristic_init_def Let_def
          reference_signatures_def)
  next
    case SigNone
    then show ?thesis using assms Some
      by (simp add: score_section_def namespaced_id_def Heuristic_init_def Let_def
          reference_signatures_def)
  qed
qed

lemma score_section_finalised:
  assumes "score_section env sname sec t = Inr (sec', t')"
  shows "finalised_as env sname sec sec' \<and> t' = t + section_score sec' \<and>
         section_tags sec' = sec_tags sec"
proof (cases "sec_heuristic sec")
  case Ref_none
  then show ?thesis using assms
    by (auto simp: score_section_def finalised_as_def section_score_def)
next
  case Ref_empty
  then show ?thesis using assms
    by (auto simp: score_section_def finalised_as_def section_score_def)
next
  case (Ref_dict rh)
  show ?thesis
  proof (cases "raw_heur_id rh")
    case None
    then show ?thesis using assms Ref_dict by (simp add: score_section_def)
  next
    case (Some raw_id)
    from score_section_dict [OF Ref_dict Some, of env sname t] assms Ref_dict
    show ?thesis
      by (auto simp: finalised_as_def section_score_def reference_score_def Heuristic_score_def
          Heuristic_init_def
          split: option.splits signatures_value.splits)
  qed
qed

lemma score_section_scorable:
  assumes "scorable_reference env sname sec"
  shows "\<exists>sec' t'. score_section env sname sec t = Inr (sec', t')"
proof (cases "sec_heuristic sec")
  case Ref_none
  then show ?thesis by (simp add: score_section_def)
next
  case Ref_empty
  then show ?thesis by (simp add: score_section_def)
next
  case (Ref_dict rh)
  with assms obtain raw_id where i: "raw_heur_id rh = Some raw_id"
    by (auto simp: scorable_reference_def)
  from assms Ref_dict score_section_dict [OF Ref_dict i, of env sname t]
  show ?thesis
    by (auto simp: scorable_reference_def reference_signatures_def
        split: option.splits signatures_value.splits)
qed

lemma score_sections_finalised:
  "score_sections env sname secs t = Inr (secs', t') \<Longrightarrow>
     list_all2 (finalised_as env sname) secs secs' \<and>
     t' = t + sum_list (map section_score secs') \<and>
     map section_tags secs' = map sec_tags secs"
proof (induction secs arbitrary: t secs' t')
  case Nil
  then show ?case by simp
next
  case (Cons sec rest)
  from Cons.prems obtain s1 t1 r1 where
    a: "score_section env sname sec t = Inr (s1, t1)"
    and b: "score_sections env sname rest t1 = Inr (r1, t')"
    and c: "secs' = s1 # r1"
    by (auto split: sum.splits)
  from score_section_finalised [OF a] Cons.IH [OF b] c show ?case by simp
qed

lemma score_sections_scorable:
  "\<forall>sec\<in>set secs. scorable_reference env sname sec \<Longrightarrow>
     \<exists>secs' t'. score_sections env sname secs t = Inr (secs', t')"
proof (induction secs arbitrary: t)
  case Nil
  then show ?case by simp
next
  case (Cons sec rest)
  from Cons.prems have "scorable_reference env sname sec" by simp
  from score_section_scorable [OF this, of t] obtain s1 t1 where
    a: "score_section env sname sec t = Inr (s1, t1)" by blast
  from Cons.prems have "\<forall>sec\<in>set rest. scorable_reference env sname sec" by simp
  from Cons.IH [OF this, of t1] obtain r1 t2 where
    b: "score_sections env sname rest t1 = Inr (r1, t2)" by blast
  from a b show ?case by simp
qed

lemma process_tags_keeps:
  "process_tags env secs = Inr secs' \<Longrightarrow>
     list_all2 (\<lambda>a b. heuristic b = heuristic a \<and> title_text b = title_text a) secs secs'"
  by (induction secs arbitrary: secs')
     (auto split: option.splits sum.splits prod.splits)

lemma process_tags_complete:
  "\<forall>s\<in>set secs. section_tags s \<noteq> None \<Longrightarrow> \<exists>secs'. process_tags env secs = Inr secs'"
  by (induction secs) (auto split: option.splits sum.splits prod.splits)

lemma finalised_as_cong:
  "heuristic a = heuristic b \<Longrightarrow> title_text a = title_text b \<Longrightarrow>
     finalised_as env sname sec a = finalised_as env sname sec b"
  by (simp add: finalised_as_def split: heuristic_ref.splits option.splits)

lemma section_score_cong:
  "heuristic a = heuristic b \<Longrightarrow> section_score a = section_score b"
  by (simp add: section_score_def)

lemma finalised_as_kept:
  assumes "list_all2 (finalised_as env sname) secs xs"
      and "list_all2 (\<lambda>a b. heuristic b = heuristic a \<and> title_text b = title_text a) xs ys"
  shows "list_all2 (finalised_as env sname) secs ys \<and>
         map section_score ys = map section_score xs"
proof -
  have l: "length ys = length xs" "length secs = length xs"
    using assms by (simp_all add: list_all2_lengthD)
  have k: "heuristic (ys ! i) = heuristic (xs ! i) \<and> title_text (ys ! i) = title_text (xs ! i)"
    if "i < length xs" for i
    using assms(2) that by (simp add: list_all2_conv_all_nth)
  have f: "finalised_as env sname (secs ! i) (ys ! i)" if "i < length xs" for i
  proof -
    from assms(1) that l have "finalised_as env sname (secs ! i) (xs ! i)"
      by (simp add: list_all2_conv_all_nth)
    with k [OF that] finalised_as_cong [of "ys ! i" "xs ! i" env sname "secs ! i"]
    show ?thesis by simp
  qed
  have "map section_score ys = map section_score xs"
  proof (rule nth_equalityI)
    show "length (map section_score ys) = length (map section_score xs)" using l by simp
  next
    fix i assume "i < length (map section_score ys)"
    then have i: "i < length xs" using l by simp
    with k [OF i] section_score_cong [of "ys ! i" "xs ! i"] l
    show "map section_score ys ! i = map section_score xs ! i" by simp
  qed
  with f l show ?thesis by (simp add: list_all2_conv_all_nth)
qed

lemma prepare_result_finalised:
  assumes "prepare_result env ci tsk r = Inr (m, t)"
  shows "\<exists>body. payload_result r = Some body \<and>
           list_all2 (finalised_as env (service_name ci)) (sections body) (result_sections m) \<and>
           result_score m = sum_list (map section_score (result_sections m)) \<and>
           response m = payload_response r"
proof -
  from assms obtain body :: result_body and secs total secs' where
    b: "payload_result r = Some body"
    and s: "score_sections env (service_name ci) (sections body) 0 = Inr (secs, total)"
    and p: "process_tags env secs = Inr secs'"
    and m: "result_score m = total" "result_sections m = secs'" "response m = payload_response r"
    by (auto simp: prepare_result_def split: option.splits sum.splits)
  from score_sections_finalised [OF s]
  have f: "list_all2 (finalised_as env (service_name ci)) (sections body) secs"
    and t: "total = sum_list (map section_score secs)" by simp_all
  from finalised_as_kept [OF f process_tags_keeps [OF p]] t b m show ?thesis by simp
qed

lemma prepare_result_declared_score:
  "prepare_result env ci tsk (r\<lparr>payload_result := Some (body\<lparr>declared_score := s\<rparr>)\<rparr>) =
   prepare_result env ci tsk (r\<lparr>payload_result := Some body\<rparr>)"
  by (simp add: prepare_result_def split: sum.splits prod.splits)

lemma prepare_result_response:
  "prepare_result env ci tsk r = Inr (m, t) \<Longrightarrow> response m = payload_response r"
  by (auto simp: prepare_result_def split: option.splits sum.splits)

lemma missing_files_nonempty:
  assumes "\<exists>f\<in>set (extracted resp @ supplementary resp).
             file_get_if_exists env (sha256 f) = None \<or> \<not> filestore_exists env (sha256 f)"
  shows "missing_files_of env resp \<noteq> []"
  using assms
  by (auto simp: missing_files_of_def file_missing_def filter_empty_conv)

lemma handle_task_result_missing:
  assumes "missing_files_of env (payload_response r) \<noteq> []"
  shows "snd (handle_task_result env e tsk r ci) = []"
proof (cases "prepare_result env ci tsk r")
  case (Inl x)
  then show ?thesis by (simp add: handle_task_result_def)
next
  case (Inr p)
  obtain m t where p: "p = (m, t)" by (cases p)
  from Inr p have "response m = payload_response r" by (simp add: prepare_result_response)
  with assms Inr p show ?thesis
    by (simp add: handle_task_result_def split: option.splits)
qed

lemma handle_task_result_missing_value:
  assumes "missing_files_of env (payload_response r) \<noteq> []"
      and "prepare_result env ci tsk r = Inr (m, t)" and "Result_model env m = None"
  shows "handle_task_result env e tsk r ci =
           (Inr (Some (missing_files_of env (payload_response r))), [])"
  using assms prepare_result_response [OF assms(2)]
  by (simp add: handle_task_result_def)

lemma task_finished_result_events:
  assumes "data_result d = Some r"
  shows "snd (task_finished env ci d) =
           (case data_task d of
              None \<Rightarrow> []
            | Some tsk \<Rightarrow>
                (case ServiceTask_model env tsk of
                   Some e \<Rightarrow> []
                 | None \<Rightarrow> snd (handle_task_result env (data_exec_time d) tsk r ci)))"
  using assms
  by (simp add: task_finished_def Let_def split: option.splits prod.splits sum.splits)

text \<open>
  Claim C2: when a result report lists, as extracted or supplementary, a file whose hash
  is missing from the file table of the datastore or from the file store,
  \<^verbatim>\<open>service_finished\<close> is not called, every such hash is in the list of missing files,
  and, the task and the result having passed scoring, tag processing and model
  construction, the response is \<^verbatim>\<open>success=False\<close> with that list and nothing else is
  done.
\<close>

theorem missing_files_abort_report:
  assumes "data_result d = Some r"
      and "\<exists>f\<in>set (extracted (payload_response r) @ supplementary (payload_response r)).
             file_get_if_exists env (sha256 f) = None \<or> \<not> filestore_exists env (sha256 f)"
  shows "filter is_service_finished (snd (task_finished env ci d)) = [] \<and>
         (\<forall>f\<in>set (extracted (payload_response r) @ supplementary (payload_response r)).
            file_get_if_exists env (sha256 f) = None \<or> \<not> filestore_exists env (sha256 f) \<longrightarrow>
            sha256 f \<in> set (missing_files_of env (payload_response r))) \<and>
         (\<forall>tsk m t. data_task d = Some tsk \<and> ServiceTask_model env tsk = None \<and>
                    prepare_result env ci tsk r = Inr (m, t) \<and> Result_model env m = None \<longrightarrow>
            task_finished env ci d =
              (Inr (make_api_response
                      (Body_missing_files (missing_files_of env (payload_response r)))), []))"
proof (intro conjI ballI allI impI)
  have ne: "missing_files_of env (payload_response r) \<noteq> []"
    using assms(2) by (rule missing_files_nonempty)
  from task_finished_result_events [OF assms(1), of env ci] handle_task_result_missing [OF ne]
  have "snd (task_finished env ci d) = []" by (simp split: option.splits)
  then show "filter is_service_finished (snd (task_finished env ci d)) = []" by simp
next
  fix f
  assume "f \<in> set (extracted (payload_response r) @ supplementary (payload_response r))"
    and "file_get_if_exists env (sha256 f) = None \<or> \<not> filestore_exists env (sha256 f)"
  then show "sha256 f \<in> set (missing_files_of env (payload_response r))"
    by (auto simp: missing_files_of_def file_missing_def)
next
  fix tsk m t
  assume a: "data_task d = Some tsk \<and> ServiceTask_model env tsk = None \<and>
             prepare_result env ci tsk r = Inr (m, t) \<and> Result_model env m = None"
  have ne: "missing_files_of env (payload_response r) \<noteq> []"
    using assms(2) by (rule missing_files_nonempty)
  from a have "handle_task_result env (data_exec_time d) tsk r ci =
                 (Inr (Some (missing_files_of env (payload_response r))), [])"
    using handle_task_result_missing_value [OF ne] by blast
  with a assms(1) show "task_finished env ci d =
              (Inr (make_api_response
                      (Body_missing_files (missing_files_of env (payload_response r)))), [])"
    by (simp add: task_finished_def)
qed

theorem missing_files_abort_report_witness:
  "task_finished demo_env demo_client
     (report_with (payload_with two_sections
        [\<lparr>file_name = ''a'', sha256 = ''aa''\<rparr>, \<lparr>file_name = ''b'', sha256 = ''bb''\<rparr>])) =
     (Inr (Api_response (Body_missing_files [''bb'']) [] 200), [])"
proof -
  let ?r = "payload_with two_sections
        [\<lparr>file_name = ''a'', sha256 = ''aa''\<rparr>, \<lparr>file_name = ''b'', sha256 = ''bb''\<rparr>]"
  have h1: "data_result (report_with ?r) = Some ?r" by (simp add: report_with_def)
  have h2: "\<exists>f\<in>set (extracted (payload_response ?r) @ supplementary (payload_response ?r)).
             file_get_if_exists demo_env (sha256 f) = None \<or> \<not> filestore_exists demo_env (sha256 f)"
    by (simp add: payload_with_def demo_env_def)
  have h3: "data_task (report_with ?r) = Some demo_task" by (simp add: report_with_def)
  have h4: "ServiceTask_model demo_env demo_task = None" by (simp add: demo_env_def)
  obtain m t where h5: "prepare_result demo_env demo_client demo_task ?r = Inr (m, t)"
    by (simp add: finalizer_defs demo_defs catalog_defs scorer_defs)
  have h6: "Result_model demo_env m = None" by (simp add: demo_env_def)
  have v: "missing_files_of demo_env (payload_response ?r) = [''bb'']"
    by (simp add: missing_files_of_def file_missing_def payload_with_def demo_env_def)
  from missing_files_abort_report [OF h1 h2, of demo_client] h3 h4 h5 h6
  have "task_finished demo_env demo_client (report_with ?r) =
          (Inr (make_api_response (Body_missing_files (missing_files_of demo_env (payload_response ?r)))), [])"
    by blast
  then show ?thesis by (simp add: v make_api_response_def)
qed

text \<open>
  Claim C4 does not hold of the code: in a report with a section whose heuristic id is
  not in the catalog and a sibling whose id is in the catalog but whose reference has no
  key \<^verbatim>\<open>signatures\<close>, the sibling is not scored and the report does not succeed:
  \<^verbatim>\<open>AttributeError\<close> leaves \<^verbatim>\<open>task_finished\<close> and nothing reaches the dispatcher. The
  same report with the signature object present succeeds, the first section's heuristic
  is \<^verbatim>\<open>None\<close>, and the sibling's score 80 is the aggregate score.
\<close>

theorem incomplete_sibling_aborts_report:
  "heuristics demo_env (namespaced_id demo_env ''Extract'' unknown_ref) = None \<and>
   heuristics demo_env (namespaced_id demo_env ''Extract'' no_signatures_ref) =
     Some extract_heuristic \<and>
   task_finished demo_env demo_client (report_with (payload_with broken_sections [])) =
     (Inl (AttributeError ''items''), []) \<and>
   task_finished demo_env demo_client (report_with (payload_with two_sections [])) =
     (Inr (make_api_response Body_success),
      [Service_finished ''sid-1'' ''key'' stored_two_sections None,
       Export_metrics ''Extract'' ''container-1'' [(''scored'', 1)]])"
  by (simp add: finalizer_defs demo_defs catalog_defs scorer_defs reference_defs)

text \<open>
  Where every reference can be scored (it carries \<^verbatim>\<open>heur_id\<close>, and a signature object
  when its id is in the catalog), the sections have tags, the models are accepted and
  no file is missing, the report succeeds: each section is finalised as owed, whatever
  the ids of its siblings, and the aggregate score is the sum of the scored sections.
\<close>

lemma scorable_report_succeeds:
  assumes refs: "\<forall>sec\<in>set secs. scorable_reference env (service_name ci) sec"
      and tags: "\<forall>sec\<in>set secs. sec_tags sec \<noteq> None"
      and task: "data_task d = Some tsk" "ServiceTask_model env tsk = None"
      and res: "data_result d = Some r" "payload_result r = Some body" "sections body = secs"
      and model: "\<forall>m t. prepare_result env ci tsk r = Inr (m, t) \<longrightarrow> Result_model env m = None"
      and files: "missing_files_of env (payload_response r) = []"
  shows "\<exists>m key t metric.
           task_finished env ci d =
             (Inr (make_api_response Body_success), [Service_finished (sid tsk) key m t, metric]) \<and>
           list_all2 (finalised_as env (service_name ci)) secs (result_sections m) \<and>
           result_score m = sum_list (map section_score (result_sections m))"
proof -
  from score_sections_scorable [OF refs, of 0] obtain secs1 t1 where
    s: "score_sections env (service_name ci) secs 0 = Inr (secs1, t1)" by blast
  from score_sections_finalised [OF s]
  have g: "map section_tags secs1 = map sec_tags secs" by simp
  have "\<forall>s\<in>set secs1. section_tags s \<noteq> None"
  proof
    fix x assume "x \<in> set secs1"
    then have "section_tags x \<in> set (map section_tags secs1)" by simp
    with g have "section_tags x \<in> set (map sec_tags secs)" by simp
    with tags show "section_tags x \<noteq> None" by auto
  qed
  from process_tags_complete [OF this, of env] obtain secs2 where
    p: "process_tags env secs1 = Inr secs2" by blast
  obtain m t where pr: "prepare_result env ci tsk r = Inr (m, t)"
    using s p res by (simp add: prepare_result_def)
  from model pr have ok: "Result_model env m = None" by blast
  from prepare_result_finalised [OF pr] res
  have fa: "list_all2 (finalised_as env (service_name ci)) secs (result_sections m)"
    and sc: "result_score m = sum_list (map section_score (result_sections m))"
    and rs: "response m = payload_response r"
    by auto
  from rs files have nf: "missing_files_of env (response m) = []" by simp
  let ?key = "result_build_key env m (service_tool_version (response m)) tsk"
  let ?metric = "if result_score m > 0
                 then Export_metrics (service_name ci) (client_id ci) [(''scored'', 1)]
                 else Export_metrics (service_name ci) (client_id ci) [(''not_scored'', 1)]"
  have "handle_task_result env (data_exec_time d) tsk r ci =
          (Inr None, [Service_finished (sid tsk) ?key m t, ?metric])"
    using pr ok nf by (simp add: handle_task_result_def)
  then have "task_finished env ci d =
          (Inr (make_api_response Body_success), [Service_finished (sid tsk) ?key m t, ?metric])"
    using task res by (simp add: task_finished_def)
  with fa sc show ?thesis by blast
qed

lemma handle_task_result_finished:
  assumes "m \<in> set (finished_results (snd (handle_task_result env e tsk r ci)))"
  shows "\<exists>t. prepare_result env ci tsk r = Inr (m, t)"
  using assms
  by (auto simp: handle_task_result_def finished_results_def Let_def
      split: sum.splits option.splits if_splits)

lemma handle_task_result_success:
  assumes "fst (handle_task_result env e tsk r ci) = Inr None"
  shows "\<exists>k m t. snd (handle_task_result env e tsk r ci) =
           [Service_finished (sid tsk) k m t,
            Export_metrics (service_name ci) (client_id ci)
              [(if result_score m > 0 then ''scored'' else ''not_scored'', 1)]]"
  using assms
  by (auto simp: handle_task_result_def Let_def split: sum.splits option.splits if_splits)

lemma task_finished_success:
  assumes "data_result d = Some r"
      and "fst (task_finished env ci d) = Inr (make_api_response Body_success)"
  shows "\<exists>tsk. data_task d = Some tsk \<and>
           fst (handle_task_result env (data_exec_time d) tsk r ci) = Inr None \<and>
           snd (task_finished env ci d) = snd (handle_task_result env (data_exec_time d) tsk r ci)"
  using assms
  by (auto simp: task_finished_def Let_def except_ValueError_def make_api_response_def
      split: option.splits sum.splits prod.splits exn.splits)

lemma task_finished_finished:
  assumes "data_result d = Some r"
      and "m \<in> set (finished_results (snd (task_finished env ci d)))"
  shows "\<exists>tsk. m \<in> set (finished_results (snd (handle_task_result env (data_exec_time d) tsk r ci)))"
proof (cases "data_task d")
  case None
  with assms task_finished_result_events [OF assms(1), of env ci] show ?thesis
    by (simp add: finished_results_def)
next
  case (Some tsk)
  show ?thesis
  proof (cases "ServiceTask_model env tsk")
    case None
    with Some assms task_finished_result_events [OF assms(1), of env ci] show ?thesis
      by (intro exI [of _ tsk]) simp
  next
    case (Some e)
    with \<open>data_task d = Some tsk\<close> assms task_finished_result_events [OF assms(1), of env ci]
    show ?thesis by (simp add: finished_results_def)
  qed
qed

text \<open>
  Claim C10: the score a worker declares under \<^verbatim>\<open>result.result.score\<close> has no effect.
  Two reports that differ only there give the same response and the same calls; every
  result handed to \<^verbatim>\<open>service_finished\<close> carries, as its score, the sum of the scores of
  its sections' scored heuristics, each section being finalised from the report as
  owed; and a report that succeeds has handed over exactly one such result, followed by
  the metric \<^verbatim>\<open>scored\<close> or \<^verbatim>\<open>not_scored\<close> according to that score.
\<close>

theorem declared_score_has_no_effect:
  "task_finished env ci (d\<lparr>data_result := Some (r\<lparr>payload_result := Some (body\<lparr>declared_score := s1\<rparr>)\<rparr>)\<rparr>) =
   task_finished env ci (d\<lparr>data_result := Some (r\<lparr>payload_result := Some (body\<lparr>declared_score := s2\<rparr>)\<rparr>)\<rparr>) \<and>
   (\<forall>m\<in>set (finished_results (snd (task_finished env ci
         (d\<lparr>data_result := Some (r\<lparr>payload_result := Some (body\<lparr>declared_score := s1\<rparr>)\<rparr>)\<rparr>)))).
      result_score m = sum_list (map section_score (result_sections m)) \<and>
      list_all2 (finalised_as env (service_name ci)) (sections body) (result_sections m)) \<and>
   (fst (task_finished env ci
          (d\<lparr>data_result := Some (r\<lparr>payload_result := Some (body\<lparr>declared_score := s1\<rparr>)\<rparr>)\<rparr>)) =
      Inr (make_api_response Body_success) \<longrightarrow>
    (\<exists>tsk k m t. data_task d = Some tsk \<and>
       snd (task_finished env ci
              (d\<lparr>data_result := Some (r\<lparr>payload_result := Some (body\<lparr>declared_score := s1\<rparr>)\<rparr>)\<rparr>)) =
         [Service_finished (sid tsk) k m t,
          Export_metrics (service_name ci) (client_id ci)
            [(if result_score m > 0 then ''scored'' else ''not_scored'', 1)]]))"
proof (intro conjI ballI impI)
  let ?r1 = "r\<lparr>payload_result := Some (body\<lparr>declared_score := s1\<rparr>)\<rparr>"
  let ?d1 = "d\<lparr>data_result := Some ?r1\<rparr>"
  have eq: "handle_task_result env e tsk ?r1 ci =
        handle_task_result env e tsk (r\<lparr>payload_result := Some (body\<lparr>declared_score := s2\<rparr>)\<rparr>) ci"
    for e tsk
    by (simp add: handle_task_result_def prepare_result_declared_score)
  show "task_finished env ci ?d1 =
   task_finished env ci (d\<lparr>data_result := Some (r\<lparr>payload_result := Some (body\<lparr>declared_score := s2\<rparr>)\<rparr>)\<rparr>)"
    by (simp add: task_finished_def Let_def eq split: option.splits)
  have dr: "data_result ?d1 = Some ?r1" by simp
  {
    fix m
    assume m: "m \<in> set (finished_results (snd (task_finished env ci ?d1)))"
    from task_finished_finished [OF dr m]
    obtain tsk where
      "m \<in> set (finished_results (snd (handle_task_result env (data_exec_time ?d1) tsk ?r1 ci)))"
      by blast
    from handle_task_result_finished [OF this] obtain t where
      "prepare_result env ci tsk ?r1 = Inr (m, t)" by blast
    from prepare_result_finalised [OF this]
    have "result_score m = sum_list (map section_score (result_sections m)) \<and>
      list_all2 (finalised_as env (service_name ci)) (sections body) (result_sections m)"
      by auto
  }
  then show "\<And>m. m \<in> set (finished_results (snd (task_finished env ci ?d1))) \<Longrightarrow>
      result_score m = sum_list (map section_score (result_sections m))"
    and "\<And>m. m \<in> set (finished_results (snd (task_finished env ci ?d1))) \<Longrightarrow>
      list_all2 (finalised_as env (service_name ci)) (sections body) (result_sections m)"
    by blast+
  assume "fst (task_finished env ci ?d1) = Inr (make_api_response Body_success)"
  from task_finished_success [OF dr this] obtain tsk where
    t: "data_task d = Some tsk"
    and f: "fst (handle_task_result env (data_exec_time ?d1) tsk ?r1 ci) = Inr None"
    and e: "snd (task_finished env ci ?d1) = snd (handle_task_result env (data_exec_time ?d1) tsk ?r1 ci)"
    by auto
  from handle_task_result_success [OF f] t e
  show "\<exists>tsk k m t. data_task d = Some tsk \<and>
       snd (task_finished env ci ?d1) =
         [Service_finished (sid tsk) k m t,
          Export_metrics (service_name ci) (client_id ci)
            [(if result_score m > 0 then ''scored'' else ''not_scored'', 1)]]"
    by auto
qed

lemma two_sections_finished:
  "task_finished demo_env demo_client (report_with (payload_with two_sections [])) =
     (Inr (make_api_response Body_success),
      [Service_finished ''sid-1'' ''key'' stored_two_sections None,
       Export_metrics ''Extract'' ''container-1'' [(''scored'', 1)]])"
  by (simp add: finalizer_defs demo_defs catalog_defs scorer_defs stored_two_sections_def)

theorem declared_score_has_no_effect_witness:
  "task_finished demo_env demo_client (report_with (payload_with two_sections [])) =
   task_finished demo_env demo_client
     (report_with ((payload_with two_sections [])
        \<lparr>payload_result := Some \<lparr>sections = two_sections, declared_score = Some 5\<rparr>\<rparr>)) \<and>
   declared_score \<lparr>sections = two_sections, declared_score = Some 1000\<rparr> = Some 1000 \<and>
   payload_result (payload_with two_sections []) =
     Some \<lparr>sections = two_sections, declared_score = Some 1000\<rparr> \<and>
   finished_results
     (snd (task_finished demo_env demo_client (report_with (payload_with two_sections [])))) =
     [stored_two_sections] \<and>
   result_score stored_two_sections = 80 \<and>
   sum_list (map section_score (result_sections stored_two_sections)) = 80 \<and>
   list_all2 (finalised_as demo_env ''Extract'') two_sections (result_sections stored_two_sections)"
proof -
  let ?d = "report_with (payload_with two_sections [])"
  note inst = declared_score_has_no_effect [where env = demo_env and ci = demo_client
        and d = "?d" and r = "payload_with two_sections []"
        and body = "\<lparr>sections = two_sections, declared_score = None\<rparr>"
        and ?s1.0 = "Some 1000" and ?s2.0 = "Some 5"]
  have n: "?d\<lparr>data_result := Some ((payload_with two_sections [])
             \<lparr>payload_result := Some (\<lparr>sections = two_sections, declared_score = None\<rparr>
                                        \<lparr>declared_score := Some 1000\<rparr>)\<rparr>)\<rparr> = ?d"
    by (simp add: report_with_def payload_with_def)
  have n2: "?d\<lparr>data_result := Some ((payload_with two_sections [])
             \<lparr>payload_result := Some (\<lparr>sections = two_sections, declared_score = None\<rparr>
                                        \<lparr>declared_score := Some 5\<rparr>)\<rparr>)\<rparr> =
        report_with ((payload_with two_sections [])
          \<lparr>payload_result := Some \<lparr>sections = two_sections, declared_score = Some 5\<rparr>\<rparr>)"
    by (simp add: report_with_def payload_with_def)
  have f: "finished_results (snd (task_finished demo_env demo_client ?d)) = [stored_two_sections]"
    by (simp add: two_sections_finished finished_results_def)
  from inst [unfolded n n2] f
  have a: "task_finished demo_env demo_client ?d =
     task_finished demo_env demo_client
       (report_with ((payload_with two_sections [])
          \<lparr>payload_result := Some \<lparr>sections = two_sections, declared_score = Some 5\<rparr>\<rparr>))"
    and b: "result_score stored_two_sections =
              sum_list (map section_score (result_sections stored_two_sections))"
    and c: "list_all2 (finalised_as demo_env (service_name demo_client)) two_sections
              (result_sections stored_two_sections)"
    by simp_all
  have s: "result_score stored_two_sections = 80" by (simp add: stored_two_sections_def)
  have p: "payload_result (payload_with two_sections []) =
     Some \<lparr>sections = two_sections, declared_score = Some 1000\<rparr>"
    by (simp add: payload_with_def)
  from a b c f s p show ?thesis by (simp add: demo_client_def)
qed

end
